theory Spec2Isabelle
  imports Complex_Main "HOL-Library.AList" "HOL-Library.Multiset"
begin

section \<open>JavaScript strings\<close>

text \<open>
  Strings are lists of code units; the model covers the code units up to U+00FF, which
  is what \<^typ>\<open>char\<close> holds. \<open>is_ws\<close> is the white space that \<open>String.prototype.trim\<close>
  strips in that range: TAB, LF, VT, FF, CR, SPACE and NBSP.
\<close>

definition TAB :: char where "TAB = CHR 0x09"
definition LF :: char where "LF = CHR 0x0A"
definition CR :: char where "CR = CHR 0x0D"

definition is_ws :: "char \<Rightarrow> bool" where
  "is_ws c = (c \<in> set [CHR 0x09, CHR 0x0A, CHR 0x0B, CHR 0x0C, CHR 0x0D, CHR 0x20, CHR 0xA0])"

definition trim :: "string \<Rightarrow> string" where
  "trim s = rev (dropWhile is_ws (rev (dropWhile is_ws s)))"

text \<open>\<open>s.split(c)\<close> for a one-character separator: never empty, \<open>"".split(c)\<close> is \<open>[""]\<close>.\<close>

fun split_on :: "char \<Rightarrow> string \<Rightarrow> string list" where
  "split_on c [] = [[]]"
| "split_on c (x # xs) =
     (if x = c then [] # split_on c xs
      else (case split_on c xs of [] \<Rightarrow> [[x]] | y # ys \<Rightarrow> (x # y) # ys))"

text \<open>\<open>s.replace(/\r\n/g, "\n")\<close> and \<open>s.replace(/\r/g, "\n")\<close>.\<close>

fun replace_crlf :: "string \<Rightarrow> string" where
  "replace_crlf (a # b # xs) =
     (if a = CR \<and> b = LF then LF # replace_crlf xs else a # replace_crlf (b # xs))"
| "replace_crlf xs = xs"

definition replace_cr :: "string \<Rightarrow> string" where
  "replace_cr s = map (\<lambda>c. if c = CR then LF else c) s"

section \<open>TSV parsing (parseTSV)\<close>

text \<open>
  A row is a JavaScript object created by \<open>{}\<close> whose properties are set by
  \<open>obj[key] = value\<close> with string values. Its own properties are an association list.
  Assigning a string to the key \<open>__proto__\<close> runs the inherited setter, which ignores a
  value that is neither an object nor null: no own property appears.
\<close>

type_synonym row_obj = "(string \<times> string) list"

definition obj_set :: "string \<Rightarrow> string \<Rightarrow> row_obj \<Rightarrow> row_obj" where
  "obj_set k v obj = (if k = ''__proto__'' then obj else AList.update k v obj)"

text \<open>\<open>cols[j] ?? ""\<close>: reading past the end of an array gives undefined.\<close>

definition cell :: "string list \<Rightarrow> nat \<Rightarrow> string" where
  "cell cols j = (if j < length cols then cols ! j else [])"

text \<open>The inner loop \<open>for (j = 0; j < headers.length; j++) obj[headers[j]] = (cols[j] ?? "").trim()\<close>.\<close>

definition row_of_cols :: "string list \<Rightarrow> string list \<Rightarrow> row_obj" where
  "row_of_cols headers cols =
     foldl (\<lambda>obj j. obj_set (headers ! j) (trim (cell cols j)) obj) [] [0..<length headers]"

definition nonblank_lines :: "string \<Rightarrow> string list" where
  "nonblank_lines txt = filter (\<lambda>l. trim l \<noteq> []) (split_on LF txt)"

definition normalize_text :: "string \<Rightarrow> string" where
  "normalize_text tsvText = trim (replace_cr (replace_crlf tsvText))"

datatype js_error = TypeError | Error string | DbError

text \<open>
  \<open>lines[0].split\<close> throws a TypeError when \<open>lines\<close> is empty; the model keeps that
  branch and the theorems show that it is never taken.
\<close>

definition parseTSV :: "string \<Rightarrow> js_error + (string list \<times> row_obj list)" where
  "parseTSV tsvText =
     (let txt = normalize_text tsvText in
      if txt = [] then Inr ([], [])
      else
        let lines = nonblank_lines txt in
        (case lines of
           [] \<Rightarrow> Inl TypeError
         | l0 # _ \<Rightarrow>
             let headers = map trim (split_on TAB l0);
                 rows = map (\<lambda>i. row_of_cols headers (split_on TAB (lines ! i))) [1..<length lines]
             in Inr (headers, rows)))"

text \<open>
  The claim in the words of the specification: the lines are those of the input after the
  line endings are normalised, the header cells come from the first non-blank line, and
  each later non-blank line gives a row whose keys are the headers and whose value under
  the header of column \<open>j\<close> is the trimmed cell \<open>j\<close>.
\<close>

definition spec_lines :: "string \<Rightarrow> string list" where
  "spec_lines tsvText =
     filter (\<lambda>l. trim l \<noteq> []) (split_on LF (replace_cr (replace_crlf tsvText)))"

definition parseTSV_claim :: "string \<Rightarrow> bool" where
  "parseTSV_claim tsvText =
     (case parseTSV tsvText of
        Inl _ \<Rightarrow> False
      | Inr (headers, rows) \<Rightarrow>
          (case spec_lines tsvText of
             [] \<Rightarrow> headers = [] \<and> rows = []
           | l0 # rest \<Rightarrow>
               headers = map trim (split_on TAB l0) \<and>
               length rows = length rest \<and>
               (\<forall>i < length rest.
                  fst ` set (rows ! i) = set headers \<and>
                  (\<forall>j < length headers.
                     map_of (rows ! i) (headers ! j) =
                       Some (trim (cell (split_on TAB (rest ! i)) j))))))"

section \<open>JavaScript values\<close>

text \<open>
  A finite number is a rational; \<open>NaN\<close> and the two infinities are values of their own.
  \<open>jv\<close> is what \<open>req.body\<close>, a route parameter or a query parameter can hold once
  express has parsed the request; a missing property reads as \<open>JUndefined\<close>.
\<close>

datatype jsnum = Num rat | NaN | Infty bool

datatype jv =
    JUndefined
  | JNull
  | JBool bool
  | JNum jsnum
  | JStr string
  | JArr "jv list"
  | JObj "(string \<times> jv) list"


text \<open>\<open>v ?? d\<close>.\<close>

definition nullish :: "jv \<Rightarrow> bool" where
  "nullish v = (v = JNull \<or> v = JUndefined)"

text \<open>
  \<open>obj.key\<close>: a TypeError on null and undefined, the own property of an object that
  \<open>JSON.parse\<close> built, and undefined for the keys the handlers read on every other value.
\<close>

fun get_prop :: "jv \<Rightarrow> string \<Rightarrow> js_error + jv" where
  "get_prop JUndefined k = Inl TypeError"
| "get_prop JNull k = Inl TypeError"
| "get_prop (JObj kvs) k = Inr (case map_of kvs k of None \<Rightarrow> JUndefined | Some v \<Rightarrow> v)"
| "get_prop _ k = Inr JUndefined"

text \<open>\<open>req.body.key\<close>, \<open>req.body\<close> being the parsed JSON object.\<close>

type_synonym body = "(string \<times> jv) list"

definition field :: "body \<Rightarrow> string \<Rightarrow> jv" where
  "field b k = (case map_of b k of None \<Rightarrow> JUndefined | Some v \<Rightarrow> v)"

text \<open>
  \<open>Number(v)\<close>. The conversion of a string, an array or an object to a number is the
  language's own and is a parameter of the model (\<open>coerce\<close>); the other cases are
  written out.
\<close>

fun Number :: "(jv \<Rightarrow> jsnum) \<Rightarrow> jv \<Rightarrow> jsnum" where
  "Number coerce JUndefined = NaN"
| "Number coerce JNull = Num 0"
| "Number coerce (JBool b) = Num (if b then 1 else 0)"
| "Number coerce (JNum n) = n"
| "Number coerce v = coerce v"

text \<open>\<open>asInt\<close> of the server: null for null, undefined, the empty string and every value
  that is not a finite number.\<close>

definition asInt :: "(jv \<Rightarrow> jsnum) \<Rightarrow> jv \<Rightarrow> rat option" where
  "asInt coerce v =
     (if v = JNull \<or> v = JUndefined \<or> v = JStr [] then None
      else (case Number coerce v of Num n \<Rightarrow> Some n | _ \<Rightarrow> None))"

text \<open>\<open>!x\<close> for a result of \<open>asInt\<close>: null and 0 are falsy.\<close>

definition usable :: "rat option \<Rightarrow> bool" where
  "usable x = (x \<noteq> None \<and> x \<noteq> Some 0)"

section \<open>The database\<close>

text \<open>
  The tables hold the columns that the statements of the server name. The schema is not
  part of the sources: a column whose type no statement fixes holds an \<open>sqlval\<close>, the
  value as it was bound, and the constraints of the schema are a parameter of the model
  (\<open>rejects\<close> below). Key and foreign-key columns that a statement casts with \<open>::int\<close>
  are integers. Columns with a default that no modelled statement reads (\<open>created_at\<close>,
  the \<open>id\<close> of \<open>exercise_sets\<close>) are left out. \<open>planned_on\<close> is a day number, counted
  from 1970-01-01.
\<close>

datatype sqlval = SqlNull | SqlNum jsnum | SqlText string | SqlBool bool | SqlOther jv

record exercise =
  e_id :: int
  e_name :: string

record workout_template =
  wt_id :: int
  wt_name :: string

record template_exercise =
  wte_id :: int
  wte_template_id :: int
  wte_exercise_id :: int
  wte_sort_order :: int
  wte_target_sets :: sqlval
  wte_target_reps :: sqlval
  wte_notes :: sqlval

record workout_plan =
  wp_id :: int
  wp_name :: string
  wp_base_template_id :: "int option"

record plan_exercise =
  wpe_id :: int
  wpe_plan_id :: int
  wpe_exercise_id :: int
  wpe_sort_order :: int
  wpe_target_sets :: "int option"
  wpe_target_reps :: sqlval
  wpe_target_weight :: sqlval
  wpe_notes :: sqlval

record workout_session =
  ws_id :: int
  ws_template_id :: "int option"
  ws_plan_id :: "int option"
  ws_calendar_id :: "int option"
  ws_performed_on :: sqlval

record exercise_set =
  es_session_id :: "int option"
  es_exercise_id :: "int option"
  es_set_number :: "int option"
  es_weight :: sqlval
  es_reps :: sqlval
  es_rpe :: sqlval

record calendar_entry =
  wc_id :: int
  wc_planned_on :: int
  wc_plan_id :: int
  wc_template_id :: int
  wc_label :: sqlval
  wc_notes :: sqlval

record database =
  exercises :: "exercise list"
  workout_templates :: "workout_template list"
  workout_template_exercises :: "template_exercise list"
  workout_plans :: "workout_plan list"
  workout_plan_exercises :: "plan_exercise list"
  workout_sessions :: "workout_session list"
  exercise_sets :: "exercise_set list"
  workout_calendar :: "calendar_entry list"

text \<open>\<open>column = $n\<close>: never true when either side is NULL.\<close>

definition sql_eq :: "int option \<Rightarrow> int option \<Rightarrow> bool" where
  "sql_eq a b = (a \<noteq> None \<and> a = b)"

subsection \<open>The data-changing statements of the server\<close>

datatype stmt =
    DeleteSets "int option" "int option"
  | InsertSet exercise_set
  | DeleteSessionSets "int option"
  | DeleteSession "int option"
  | DeleteExercise "int option"
  | DeleteTemplateExercise "int option" "int option"
  | UpdateSortOrder int int
  | ClearSessionPlan "int option"
  | DeletePlanExercises "int option"
  | DeletePlan "int option"
  | InsertSession workout_session
  | InsertPlan workout_plan
  | InsertPlanExercise plan_exercise

fun exec :: "stmt \<Rightarrow> database \<Rightarrow> database" where
  "exec (DeleteSets s e) db =
     db\<lparr>exercise_sets :=
          filter (\<lambda>r. \<not> (sql_eq (es_session_id r) s \<and> sql_eq (es_exercise_id r) e))
            (exercise_sets db)\<rparr>"
| "exec (InsertSet r) db = db\<lparr>exercise_sets := exercise_sets db @ [r]\<rparr>"
| "exec (DeleteSessionSets s) db =
     db\<lparr>exercise_sets := filter (\<lambda>r. \<not> sql_eq (es_session_id r) s) (exercise_sets db)\<rparr>"
| "exec (DeleteSession s) db =
     db\<lparr>workout_sessions := filter (\<lambda>r. \<not> sql_eq (Some (ws_id r)) s) (workout_sessions db)\<rparr>"
| "exec (DeleteExercise e) db =
     db\<lparr>exercises := filter (\<lambda>r. \<not> sql_eq (Some (e_id r)) e) (exercises db)\<rparr>"
| "exec (DeleteTemplateExercise w e) db =
     db\<lparr>workout_template_exercises :=
          filter (\<lambda>r. \<not> (sql_eq (Some (wte_template_id r)) w \<and> sql_eq (Some (wte_exercise_id r)) e))
            (workout_template_exercises db)\<rparr>"
| "exec (UpdateSortOrder v i) db =
     db\<lparr>workout_template_exercises :=
          map (\<lambda>r. if wte_id r = i then r\<lparr>wte_sort_order := v\<rparr> else r)
            (workout_template_exercises db)\<rparr>"
| "exec (ClearSessionPlan p) db =
     db\<lparr>workout_sessions :=
          map (\<lambda>r. if sql_eq (ws_plan_id r) p then r\<lparr>ws_plan_id := None\<rparr> else r)
            (workout_sessions db)\<rparr>"
| "exec (DeletePlanExercises p) db =
     db\<lparr>workout_plan_exercises :=
          filter (\<lambda>r. \<not> sql_eq (Some (wpe_plan_id r)) p) (workout_plan_exercises db)\<rparr>"
| "exec (DeletePlan p) db =
     db\<lparr>workout_plans := filter (\<lambda>r. \<not> sql_eq (Some (wp_id r)) p) (workout_plans db)\<rparr>"
| "exec (InsertSession r) db = db\<lparr>workout_sessions := workout_sessions db @ [r]\<rparr>"
| "exec (InsertPlan r) db = db\<lparr>workout_plans := workout_plans db @ [r]\<rparr>"
| "exec (InsertPlanExercise r) db =
     db\<lparr>workout_plan_exercises := workout_plan_exercises db @ [r]\<rparr>"

subsection \<open>What the model takes from outside the repository\<close>

text \<open>
  \<^item> \<open>coerce\<close>: \<open>Number(v)\<close> for a string, an array or an object;
  \<^item> \<open>text_int4\<close>: PostgreSQL's reading of a text parameter cast with \<open>::int\<close>
    (\<open>None\<close>: the statement fails);
  \<^item> \<open>rejects\<close>: whether the database refuses a statement in a state (a constraint of
    the schema, which the sources do not contain);
  \<^item> \<open>today\<close>: \<open>new Date().toISOString().slice(0, 10)\<close>;
  \<^item> \<open>sql_lower\<close>: PostgreSQL's \<open>lower\<close>;
  \<^item> \<open>to_String\<close>: \<open>String(v)\<close> for a value that is not a string;
  \<^item> \<open>new_id\<close>: the key that a sequence gives to an inserted row.
\<close>

record env =
  coerce :: "jv \<Rightarrow> jsnum"
  text_int4 :: "string \<Rightarrow> int option"
  rejects :: "stmt \<Rightarrow> database \<Rightarrow> bool"
  today :: string
  sql_lower :: "string \<Rightarrow> string"
  to_String :: "jv \<Rightarrow> string"
  new_id :: "database \<Rightarrow> int"

subsection \<open>Parameters bound to a statement\<close>

definition int4 :: "int \<Rightarrow> bool" where
  "int4 i = (- 2147483648 \<le> i \<and> i \<le> 2147483647)"

text \<open>A JavaScript number bound to \<open>$n::int\<close>: its decimal text must read as an
  integer of 32 bits.\<close>

fun num_int4 :: "jsnum \<Rightarrow> js_error + int option" where
  "num_int4 (Num r) =
     (if of_int \<lfloor>r\<rfloor> = r \<and> int4 \<lfloor>r\<rfloor> then Inr (Some \<lfloor>r\<rfloor>) else Inl DbError)"
| "num_int4 _ = Inl DbError"

text \<open>A result of \<open>asInt\<close> bound to \<open>$n::int\<close>: null is NULL.\<close>

fun id_int4 :: "rat option \<Rightarrow> js_error + int option" where
  "id_int4 None = Inr None"
| "id_int4 (Some r) = num_int4 (Num r)"

text \<open>
  A value of the request bound to \<open>$n::int\<close> as it is: null and undefined are NULL, a
  string is read by the database, and the text of a boolean, an array or an object is no
  integer.
\<close>

fun param_int4 :: "env \<Rightarrow> jv \<Rightarrow> js_error + int option" where
  "param_int4 env JUndefined = Inr None"
| "param_int4 env JNull = Inr None"
| "param_int4 env (JNum n) = num_int4 n"
| "param_int4 env (JStr s) =
     (case text_int4 env s of None \<Rightarrow> Inl DbError | Some i \<Rightarrow> Inr (Some i))"
| "param_int4 env _ = Inl DbError"

text \<open>A value bound to a parameter without a cast.\<close>

fun bind_param :: "jv \<Rightarrow> sqlval" where
  "bind_param JUndefined = SqlNull"
| "bind_param JNull = SqlNull"
| "bind_param (JNum n) = SqlNum n"
| "bind_param (JStr s) = SqlText s"
| "bind_param (JBool b) = SqlBool b"
| "bind_param v = SqlOther v"

subsection \<open>The server's state and the calls on the connection pool\<close>

text \<open>
  One request runs at a time, and the statements of a request reach the database on one
  connection. \<open>data\<close> is what that connection sees; \<open>saved\<close> is the state to which
  ROLLBACK returns, present while a transaction is open. \<open>calls\<close> records, in order,
  the calls that open or close a transaction or change data, and whether a call went
  through \<open>pool.query\<close> or through a client checked out with \<open>pool.connect()\<close>.
\<close>

datatype channel = Pool | Client

datatype sql = Begin | Commit | Rollback | Write stmt

datatype call = Connect | Release | Query channel sql

record server =
  data :: database
  saved :: "database option"
  calls :: "call list"

definition logged :: "call \<Rightarrow> server \<Rightarrow> server" where
  "logged c s = s\<lparr>calls := calls s @ [c]\<rparr>"

definition connect :: "server \<Rightarrow> server" where
  "connect s = logged Connect s"

definition release :: "server \<Rightarrow> server" where
  "release s = logged Release s"

definition begin_tx :: "channel \<Rightarrow> server \<Rightarrow> server" where
  "begin_tx ch s =
     logged (Query ch Begin) (case saved s of None \<Rightarrow> s\<lparr>saved := Some (data s)\<rparr> | Some _ \<Rightarrow> s)"

definition commit_tx :: "channel \<Rightarrow> server \<Rightarrow> server" where
  "commit_tx ch s = logged (Query ch Commit) (s\<lparr>saved := None\<rparr>)"

definition rollback_tx :: "channel \<Rightarrow> server \<Rightarrow> server" where
  "rollback_tx ch s =
     logged (Query ch Rollback)
       (case saved s of None \<Rightarrow> s | Some d \<Rightarrow> s\<lparr>data := d, saved := None\<rparr>)"

text \<open>
  An awaited step of a handler: it throws or returns a value, and leaves a state. A
  statement that the database refuses changes nothing and throws.
\<close>

type_synonym 'a io = "server \<Rightarrow> (js_error + 'a) \<times> server"

definition ret :: "'a \<Rightarrow> 'a io" where
  "ret x s = (Inr x, s)"

definition lift :: "js_error + 'a \<Rightarrow> 'a io" where
  "lift r s = (r, s)"

definition and_then :: "'a io \<Rightarrow> ('a \<Rightarrow> 'b io) \<Rightarrow> 'b io" where
  "and_then m f s = (case m s of (Inl e, s') \<Rightarrow> (Inl e, s') | (Inr x, s') \<Rightarrow> f x s')"

definition db_write :: "channel \<Rightarrow> env \<Rightarrow> stmt \<Rightarrow> unit io" where
  "db_write ch env st s =
     (let s' = logged (Query ch (Write st)) s in
      if rejects env st (data s) then (Inl DbError, s')
      else (Inr (), s'\<lparr>data := exec st (data s)\<rparr>))"

text \<open>\<open>a >>= f\<close> on results without state.\<close>

definition try_bind :: "js_error + 'a \<Rightarrow> ('a \<Rightarrow> js_error + 'b) \<Rightarrow> js_error + 'b" where
  "try_bind r f = (case r of Inl e \<Rightarrow> Inl e | Inr x \<Rightarrow> f x)"

subsection \<open>Responses\<close>

text \<open>
  The body of a response holds what the claims read. \<open>Failure\<close> is a body
  \<open>{ error: String(e.message) }\<close> whose text comes from the database or the runtime.
  \<open>Unhandled\<close> is a handler whose promise rejects outside every \<open>try\<close>: it sends no
  response.
\<close>

record template_item =
  ti_exercise_id :: int
  ti_name :: string
  ti_sort_order :: int

datatype payload =
    ErrorMsg string
  | Failure
  | OkTrue
  | Replaced nat
  | SessionStarted int "rat option" "rat option" "rat option"
  | TemplateData "(int \<times> string \<times> template_item list) option"
  | CalendarWeek string "calendar_entry list"
  | ImportReport bool string nat nat nat

datatype response = Response nat payload | Unhandled


section \<open>The route handlers\<close>

text \<open>A text between single quotes, for the messages that quote a word.\<close>

definition quoted :: "string \<Rightarrow> string" where
  "quoted s = CHR 0x27 # s @ [CHR 0x27]"

definition step :: "(server \<Rightarrow> server) \<Rightarrow> unit io" where
  "step f s = (Inr (), f s)"

definition reads :: "(database \<Rightarrow> js_error + 'a) \<Rightarrow> 'a io" where
  "reads q s = (q (data s), s)"

text \<open>A value read from an integer column, as the driver hands it to JavaScript.\<close>

fun db_int :: "int option \<Rightarrow> jv" where
  "db_int None = JNull"
| "db_int (Some i) = JNum (Num (of_int i))"

subsection \<open>POST /api/sets/bulk\<close>



text \<open>\<open>s.weight === null ? null : Number(s.weight)\<close>, bound without a cast.\<close>

definition set_value :: "env \<Rightarrow> jv \<Rightarrow> sqlval" where
  "set_value env v = (if v = JNull then SqlNull else SqlNum (Number (coerce env) v))"


definition insert_set_stmt :: "env \<Rightarrow> jv \<Rightarrow> jv \<Rightarrow> jv \<Rightarrow> js_error + stmt" where
  "insert_set_stmt env session_id exercise_id s =
     try_bind (get_prop s ''set_number'') (\<lambda>set_number.
     try_bind (get_prop s ''weight'') (\<lambda>weight.
     try_bind (get_prop s ''reps'') (\<lambda>reps.
     try_bind (get_prop s ''rpe'') (\<lambda>rpe.
     try_bind (param_int4 env session_id) (\<lambda>sid.
     try_bind (param_int4 env exercise_id) (\<lambda>eid.
     try_bind (num_int4 (Number (coerce env) set_number)) (\<lambda>n.
       Inr (InsertSet \<lparr>es_session_id = sid, es_exercise_id = eid, es_set_number = n,
              es_weight = set_value env weight, es_reps = set_value env reps,
              es_rpe = set_value env rpe\<rparr>))))))))"

fun insert_sets :: "env \<Rightarrow> jv \<Rightarrow> jv \<Rightarrow> jv list \<Rightarrow> unit io" where
  "insert_sets env session_id exercise_id [] = ret ()"
| "insert_sets env session_id exercise_id (s # ss) =
     and_then (lift (insert_set_stmt env session_id exercise_id s)) (\<lambda>st.
     and_then (db_write Client env st) (\<lambda>_.
       insert_sets env session_id exercise_id ss))"


subsection \<open>POST /api/sets\<close>

definition post_sets :: "env \<Rightarrow> body \<Rightarrow> server \<Rightarrow> response \<times> server" where
  "post_sets env b s =
     (case
        and_then
          (lift
            (try_bind (param_int4 env (field b ''session_id'')) (\<lambda>sid.
             try_bind (param_int4 env (field b ''exercise_id'')) (\<lambda>eid.
             try_bind (param_int4 env (field b ''set_number'')) (\<lambda>n.
               Inr (InsertSet \<lparr>es_session_id = sid, es_exercise_id = eid, es_set_number = n,
                      es_weight = bind_param (field b ''weight''),
                      es_reps = bind_param (field b ''reps''),
                      es_rpe = bind_param (field b ''rpe'')\<rparr>))))))
          (db_write Pool env) s
      of
        (Inr _, s') \<Rightarrow> (Response 200 OkTrue, s')
      | (Inl e, s') \<Rightarrow> (Unhandled, s'))"

subsection \<open>DELETE /api/sessions/:id\<close>

definition delete_session :: "env \<Rightarrow> string \<Rightarrow> server \<Rightarrow> response \<times> server" where
  "delete_session env id_param s =
     (let sessionId = asInt (coerce env) (JStr id_param) in
      if \<not> usable sessionId then (Response 400 (ErrorMsg ''Invalid session id''), s)
      else
        (case
           and_then (step (begin_tx Client)) (\<lambda>_.
           and_then (lift (id_int4 sessionId)) (\<lambda>sid.
           and_then (db_write Client env (DeleteSessionSets sid)) (\<lambda>_.
           and_then (lift (id_int4 sessionId)) (\<lambda>sid.
           and_then (db_write Client env (DeleteSession sid)) (\<lambda>_.
             step (commit_tx Client))))))
           (connect s)
         of
           (Inr _, s') \<Rightarrow> (Response 200 OkTrue, release s')
         | (Inl e, s') \<Rightarrow> (Response 500 Failure, release (rollback_tx Client s'))))"

subsection \<open>DELETE /api/plans/:id\<close>


subsection \<open>DELETE /api/exercises/:id\<close>

text \<open>The handler has no \<open>try\<close>: a failing query leaves the request unanswered.\<close>

definition delete_exercise :: "env \<Rightarrow> string \<Rightarrow> server \<Rightarrow> response \<times> server" where
  "delete_exercise env id_param s =
     (let ident = asInt (coerce env) (JStr id_param) in
      (case id_int4 ident of
         Inl e \<Rightarrow> (Unhandled, s)
       | Inr i \<Rightarrow>
           let used = take 1 (filter (\<lambda>r. sql_eq (Some (wte_exercise_id r)) i)
                                (workout_template_exercises (data s)))
           in
           if length used > 0
           then (Response 409
                  (ErrorMsg ''Exercise is used in a workout. Remove it from workouts first.''), s)
           else
             (case db_write Pool env (DeleteExercise i) s of
                (Inr _, s') \<Rightarrow> (Response 200 OkTrue, s')
              | (Inl e, s') \<Rightarrow> (Unhandled, s'))))"

subsection \<open>POST /api/sessions\<close>

definition session_row ::
  "env \<Rightarrow> database \<Rightarrow> rat option \<Rightarrow> rat option \<Rightarrow> rat option \<Rightarrow> jv \<Rightarrow> js_error + stmt" where
  "session_row env db templateId planId calIn date =
     try_bind (id_int4 templateId) (\<lambda>t.
     try_bind (id_int4 planId) (\<lambda>p.
     try_bind (id_int4 calIn) (\<lambda>c.
       Inr (InsertSession \<lparr>ws_id = new_id env db, ws_template_id = t, ws_plan_id = p,
              ws_calendar_id = c, ws_performed_on = bind_param date\<rparr>))))"

definition insert_session ::
  "env \<Rightarrow> rat option \<Rightarrow> rat option \<Rightarrow> rat option \<Rightarrow> jv \<Rightarrow> server \<Rightarrow> response \<times> server" where
  "insert_session env templateId planId calIn date s =
     (case and_then (lift (session_row env (data s) templateId planId calIn date))
             (db_write Pool env) s
      of
        (Inr _, s') \<Rightarrow>
          (Response 200 (SessionStarted (new_id env (data s)) templateId planId calIn), s')
      | (Inl e, s') \<Rightarrow> (Response 500 Failure, s'))"

definition post_sessions :: "env \<Rightarrow> body \<Rightarrow> server \<Rightarrow> response \<times> server" where
  "post_sessions env b s =
     (let tmplIn = asInt (coerce env) (field b ''workout_template_id'');
          planIn = asInt (coerce env) (field b ''plan_id'');
          calIn = asInt (coerce env) (field b ''workout_calendar_id'')
      in
      if \<not> usable tmplIn \<and> \<not> usable planIn
      then (Response 400 (ErrorMsg ''workout_template_id or plan_id required''), s)
      else if usable tmplIn \<and> usable planIn
      then (Response 400 (ErrorMsg ''Send only one of workout_template_id or plan_id''), s)
      else
        let date = (if nullish (field b ''performed_on'') then JStr (today env)
                    else field b ''performed_on'');
            templateId = tmplIn;
            planId = planIn
        in
        if usable planId then
          (case id_int4 planId of
             Inl e \<Rightarrow> (Response 500 Failure, s)
           | Inr pid \<Rightarrow>
               (case filter (\<lambda>p. sql_eq (Some (wp_id p)) pid) (workout_plans (data s)) of
                  [] \<Rightarrow> (Response 404 (ErrorMsg ''Plan not found''), s)
                | plan # _ \<Rightarrow>
                    let templateId = asInt (coerce env) (db_int (wp_base_template_id plan)) in
                    if \<not> usable templateId
                    then (Response 500 (ErrorMsg ''Plan has invalid base_template_id''), s)
                    else insert_session env templateId planId calIn date s))
        else insert_session env templateId planId calIn date s)"

subsection \<open>getWorkoutTemplate\<close>

text \<open>
  \<open>order by sort_order\<close> is a stable sort of the rows in table order; SQL leaves the order
  of rows with equal keys open.
\<close>

definition template_rows :: "database \<Rightarrow> int option \<Rightarrow> template_exercise list" where
  "template_rows db w =
     sort_key wte_sort_order
       (filter (\<lambda>r. sql_eq (Some (wte_template_id r)) w) (workout_template_exercises db))"

definition getWorkoutTemplate ::
  "database \<Rightarrow> rat option \<Rightarrow> js_error + (int \<times> string \<times> template_item list) option" where
  "getWorkoutTemplate db workoutId =
     try_bind (id_int4 workoutId) (\<lambda>w.
       (case filter (\<lambda>t. sql_eq (Some (wt_id t)) w) (workout_templates db) of
          [] \<Rightarrow> Inr None
        | t # _ \<Rightarrow>
            Inr (Some (wt_id t, wt_name t,
              concat (map (\<lambda>r. map (\<lambda>e. \<lparr>ti_exercise_id = wte_exercise_id r, ti_name = e_name e,
                                            ti_sort_order = wte_sort_order r\<rparr>)
                                 (filter (\<lambda>e. e_id e = wte_exercise_id r) (exercises db)))
                      (template_rows db w))))))"

subsection \<open>DELETE /api/workout-templates/:id/exercises/:exerciseId\<close>



subsection \<open>POST /api/workout-templates/:id/exercises/:exerciseId/move\<close>

text \<open>
  The neighbour: the first row of the template below (above) the current order, taken in
  descending (ascending) order.
\<close>

definition neighbor :: "database \<Rightarrow> bool \<Rightarrow> int option \<Rightarrow> int \<Rightarrow> template_exercise list" where
  "neighbor db up w curOrder =
     (if up
      then take 1 (rev (sort_key wte_sort_order
             (rev (filter (\<lambda>r. sql_eq (Some (wte_template_id r)) w \<and> wte_sort_order r < curOrder)
                (workout_template_exercises db)))))
      else take 1 (sort_key wte_sort_order
             (filter (\<lambda>r. sql_eq (Some (wte_template_id r)) w \<and> wte_sort_order r > curOrder)
                (workout_template_exercises db))))"

text \<open>
  The two updates run between \<open>pool.query("begin")\<close> and \<open>pool.query("commit")\<close>; the
  inner \<open>catch\<close> rolls back and throws again, and the outer \<open>catch\<close> answers 500.
\<close>

definition swap_orders :: "env \<Rightarrow> int \<Rightarrow> int \<Rightarrow> int \<Rightarrow> int \<Rightarrow> unit io" where
  "swap_orders env curId curOrder nbId nbOrder s =
     (case
        and_then (db_write Pool env (UpdateSortOrder nbOrder curId)) (\<lambda>_.
        and_then (db_write Pool env (UpdateSortOrder curOrder nbId)) (\<lambda>_.
          step (commit_tx Pool)))
        (begin_tx Pool s)
      of
        (Inr u, s') \<Rightarrow> (Inr u, s')
      | (Inl e, s') \<Rightarrow> (Inl e, rollback_tx Pool s'))"

definition move_exercise ::
  "env \<Rightarrow> string \<Rightarrow> string \<Rightarrow> body \<Rightarrow> server \<Rightarrow> response \<times> server" where
  "move_exercise env id_param exercise_param b s =
     (let workoutId = asInt (coerce env) (JStr id_param);
          exerciseId = asInt (coerce env) (JStr exercise_param);
          direction = field b ''direction''
      in
      if direction \<noteq> JStr ''up'' \<and> direction \<noteq> JStr ''down''
      then (Response 400 (ErrorMsg (''direction must be '' @ quoted ''up'' @ '' or '' @ quoted ''down'')), s)
      else
        (case try_bind (id_int4 workoutId) (\<lambda>w. try_bind (id_int4 exerciseId) (\<lambda>e. Inr (w, e))) of
           Inl err \<Rightarrow> (Response 500 Failure, s)
         | Inr (w, e) \<Rightarrow>
             (case filter (\<lambda>r. sql_eq (Some (wte_template_id r)) w \<and>
                               sql_eq (Some (wte_exercise_id r)) e)
                     (workout_template_exercises (data s)) of
                [] \<Rightarrow> (Response 404 (ErrorMsg ''Not found''), s)
              | cur # _ \<Rightarrow>
                  (case neighbor (data s) (direction = JStr ''up'') w (wte_sort_order cur) of
                     [] \<Rightarrow>
                       (case getWorkoutTemplate (data s) workoutId of
                          Inr d \<Rightarrow> (Response 200 (TemplateData d), s)
                        | Inl err \<Rightarrow> (Response 500 Failure, s))
                   | nb # _ \<Rightarrow>
                       (case
                          and_then
                            (swap_orders env (wte_id cur) (wte_sort_order cur)
                               (wte_id nb) (wte_sort_order nb)) (\<lambda>_.
                            reads (\<lambda>db. getWorkoutTemplate db workoutId))
                          s
                        of
                          (Inr d, s') \<Rightarrow> (Response 200 (TemplateData d), s')
                        | (Inl err, s') \<Rightarrow> (Response 500 Failure, s'))))))"

subsection \<open>POST /api/import/plans\<close>

definition dquoted :: "string \<Rightarrow> string" where
  "dquoted s = CHR 0x22 # s @ [CHR 0x22]"


text \<open>The value of a string of decimal digits.\<close>

fun digits_value :: "string \<Rightarrow> nat \<Rightarrow> nat option" where
  "digits_value [] acc = Some acc"
| "digits_value (c # cs) acc =
     (if 48 \<le> (of_char c :: nat) \<and> (of_char c :: nat) \<le> 57
      then digits_value cs (10 * acc + (of_char c - 48))
      else None)"






record item =
  it_exercise_name :: string
  it_sort_order :: "int option"
  it_target_sets :: "int option"
  it_target_reps :: "int option"
  it_target_weight :: "rat option"
  it_notes :: "string option"

text \<open>
  \<open>planGroups\<close>, \<open>templateNames\<close> and \<open>exerciseNames\<close> keep the order of first insertion: a
  list of groups keyed by the plan name, and two lists without repetition.
\<close>

record plan_group =
  g_plan_name :: string
  g_base_template_name :: string
  g_items :: "item list"








text \<open>\<open>group.items.map((x, idx) => ({ ...x, sort_order: x.sort_order ?? idx + 1 }))\<close>.\<close>

definition numbered_items :: "item list \<Rightarrow> item list" where
  "numbered_items items =
     map (\<lambda>(idx, x). x\<lparr>it_sort_order :=
                        Some (case it_sort_order x of None \<Rightarrow> int idx + 1 | Some v \<Rightarrow> v)\<rparr>)
       (zip [0..<length items] items)"

text \<open>A number or null bound to \<open>$n::int\<close>.\<close>

fun opt_int4 :: "int option \<Rightarrow> js_error + int option" where
  "opt_int4 None = Inr None"
| "opt_int4 (Some v) = num_int4 (Num (of_int v))"

definition plan_exercise_stmt ::
  "env \<Rightarrow> database \<Rightarrow> (string \<times> int) list \<Rightarrow> int \<Rightarrow> item \<Rightarrow> js_error + stmt" where
  "plan_exercise_stmt env db exerciseMap planId it =
     try_bind (opt_int4 (it_sort_order it)) (\<lambda>so.
     try_bind (opt_int4 (it_target_sets it)) (\<lambda>ts.
     try_bind (opt_int4 (it_target_reps it)) (\<lambda>tr.
       (case (map_of exerciseMap (it_exercise_name it), so) of
          (Some exerciseId, Some sort_order) \<Rightarrow>
            Inr (InsertPlanExercise
                  \<lparr>wpe_id = new_id env db, wpe_plan_id = planId, wpe_exercise_id = exerciseId,
                   wpe_sort_order = sort_order, wpe_target_sets = ts,
                   wpe_target_reps = (case tr of None \<Rightarrow> SqlNull | Some v \<Rightarrow> SqlNum (Num (of_int v))),
                   wpe_target_weight =
                     (case it_target_weight it of None \<Rightarrow> SqlNull | Some n \<Rightarrow> SqlNum (Num n)),
                   wpe_notes = (case it_notes it of None \<Rightarrow> SqlNull | Some t \<Rightarrow> SqlText t)\<rparr>)
        | _ \<Rightarrow> Inl DbError))))"

fun insert_items :: "env \<Rightarrow> (string \<times> int) list \<Rightarrow> int \<Rightarrow> item list \<Rightarrow> unit io" where
  "insert_items env exerciseMap planId [] = ret ()"
| "insert_items env exerciseMap planId (it # its) =
     and_then (reads (\<lambda>db. plan_exercise_stmt env db exerciseMap planId it)) (\<lambda>st.
     and_then (db_write Client env st) (\<lambda>_.
       insert_items env exerciseMap planId its))"

text \<open>
  One turn of the loop over \<open>planGroups\<close>: the counts it adds to \<open>plansCreated\<close>,
  \<open>plansUpdated\<close> and \<open>exercisesInserted\<close>.
\<close>

definition import_group ::
  "env \<Rightarrow> jv \<Rightarrow> (string \<times> int) list \<Rightarrow> (string \<times> int) list \<Rightarrow> plan_group \<Rightarrow>
   (nat \<times> nat \<times> nat) io" where
  "import_group env mode templateMap exerciseMap g =
     (let planName = g_plan_name g;
          baseTemplateId = map_of templateMap (g_base_template_name g);
          items = numbered_items (g_items g)
      in
      and_then
        (reads (\<lambda>db. Inr (filter (\<lambda>p. sql_lower env (wp_name p) = sql_lower env planName \<and>
                                        sql_eq (wp_base_template_id p) baseTemplateId)
                              (workout_plans db)))) (\<lambda>existing.
        (case existing of
           p # _ \<Rightarrow>
             if mode = JStr ''create''
             then lift (Inl (Error (''Plan already exists for this workout: '' @ dquoted planName @
                           '' (use mode='' @ dquoted ''replace'' @ '' to overwrite)'')))
             else
               and_then (db_write Client env (DeletePlanExercises (Some (wp_id p)))) (\<lambda>_.
               and_then (insert_items env exerciseMap (wp_id p) items) (\<lambda>_.
                 ret (0, 1, length items)))
         | [] \<Rightarrow>
             and_then (reads (\<lambda>db. Inr (new_id env db))) (\<lambda>planId.
             and_then (db_write Client env
                        (InsertPlan \<lparr>wp_id = planId, wp_name = planName,
                                     wp_base_template_id = baseTemplateId\<rparr>)) (\<lambda>_.
             and_then (insert_items env exerciseMap planId items) (\<lambda>_.
               ret (1, 0, length items)))))))"

fun import_groups ::
  "env \<Rightarrow> jv \<Rightarrow> (string \<times> int) list \<Rightarrow> (string \<times> int) list \<Rightarrow> plan_group list \<Rightarrow>
   nat \<times> nat \<times> nat \<Rightarrow> (nat \<times> nat \<times> nat) io" where
  "import_groups env mode templateMap exerciseMap [] counts = ret counts"
| "import_groups env mode templateMap exerciseMap (g # gs) counts =
     and_then (import_group env mode templateMap exerciseMap g) (\<lambda>(c, u, n).
       (case counts of (plansCreated, plansUpdated, exercisesInserted) \<Rightarrow>
          import_groups env mode templateMap exerciseMap gs
            (plansCreated + c, plansUpdated + u, exercisesInserted + n)))"



section \<open>A concrete environment and database\<close>

text \<open>
  \<open>env0\<close> accepts every statement, reads a string of decimal digits as its number and
  reads nothing else; a new key is one more than the greatest key of the sessions, plans
  and plan exercises. \<open>db0\<close> holds two exercises, one template with three exercises, one
  plan of that template, two sessions and three logged sets.
\<close>

definition decimal :: "string \<Rightarrow> int option" where
  "decimal s = (if s = [] then None else map_option int (digits_value s 0))"

definition env0 :: env where
  "env0 = \<lparr>coerce = (\<lambda>v. case v of
                          JStr s \<Rightarrow> (case decimal s of None \<Rightarrow> NaN | Some i \<Rightarrow> Num (of_int i))
                        | _ \<Rightarrow> NaN),
           text_int4 = decimal,
           rejects = (\<lambda>st db. False),
           today = ''2024-05-06'',
           sql_lower = (\<lambda>s. s),
           to_String = (\<lambda>v. []),
           new_id = (\<lambda>db. 1 + foldr max (map ws_id (workout_sessions db) @
                                           map wp_id (workout_plans db) @
                                           map wpe_id (workout_plan_exercises db)) 0)\<rparr>"

definition db0 :: database where
  "db0 = \<lparr>exercises = [\<lparr>e_id = 1, e_name = ''Squat''\<rparr>, \<lparr>e_id = 2, e_name = ''Bench''\<rparr>,
                      \<lparr>e_id = 3, e_name = ''Row''\<rparr>, \<lparr>e_id = 4, e_name = ''Curl''\<rparr>],
          workout_templates = [\<lparr>wt_id = 1, wt_name = ''Lift A''\<rparr>],
          workout_template_exercises =
            [\<lparr>wte_id = 10, wte_template_id = 1, wte_exercise_id = 1, wte_sort_order = 1,
              wte_target_sets = SqlNull, wte_target_reps = SqlNull, wte_notes = SqlNull\<rparr>,
             \<lparr>wte_id = 11, wte_template_id = 1, wte_exercise_id = 2, wte_sort_order = 2,
              wte_target_sets = SqlNull, wte_target_reps = SqlText ''8'', wte_notes = SqlNull\<rparr>,
             \<lparr>wte_id = 12, wte_template_id = 1, wte_exercise_id = 3, wte_sort_order = 3,
              wte_target_sets = SqlNull, wte_target_reps = SqlNull, wte_notes = SqlNull\<rparr>],
          workout_plans = [\<lparr>wp_id = 5, wp_name = ''Heavy'', wp_base_template_id = Some 1\<rparr>],
          workout_plan_exercises =
            [\<lparr>wpe_id = 20, wpe_plan_id = 5, wpe_exercise_id = 1, wpe_sort_order = 1,
              wpe_target_sets = Some 3, wpe_target_reps = SqlText ''8'',
              wpe_target_weight = SqlNull, wpe_notes = SqlNull\<rparr>],
          workout_sessions =
            [\<lparr>ws_id = 7, ws_template_id = Some 1, ws_plan_id = Some 5, ws_calendar_id = None,
              ws_performed_on = SqlText ''2024-05-01''\<rparr>,
             \<lparr>ws_id = 8, ws_template_id = Some 1, ws_plan_id = None, ws_calendar_id = None,
              ws_performed_on = SqlText ''2024-05-03''\<rparr>],
          exercise_sets =
            [\<lparr>es_session_id = Some 7, es_exercise_id = Some 1, es_set_number = Some 1,
              es_weight = SqlNum (Num 100), es_reps = SqlNum (Num 5), es_rpe = SqlNull\<rparr>,
             \<lparr>es_session_id = Some 7, es_exercise_id = Some 2, es_set_number = Some 1,
              es_weight = SqlNum (Num 60), es_reps = SqlNum (Num 8), es_rpe = SqlNull\<rparr>,
             \<lparr>es_session_id = Some 8, es_exercise_id = Some 1, es_set_number = Some 1,
              es_weight = SqlNum (Num 105), es_reps = SqlNum (Num 5), es_rpe = SqlNull\<rparr>],
          workout_calendar = []\<rparr>"

definition srv0 :: server where
  "srv0 = \<lparr>data = db0, saved = None, calls = []\<rparr>"



section \<open>Notions used in the statements\<close>


text \<open>
  \<open>beyond up o r\<close>: row \<open>r\<close> lies in the direction of the move from the order \<open>o\<close>, below it
  for a move up and above it for a move down. \<open>swapped cur nb\<close> exchanges the
  \<open>sort_order\<close> of the rows \<open>cur\<close> and \<open>nb\<close> and leaves every other row and field alone.
\<close>

definition beyond :: "bool \<Rightarrow> int \<Rightarrow> template_exercise \<Rightarrow> bool" where
  "beyond up curOrder r = (if up then wte_sort_order r < curOrder else wte_sort_order r > curOrder)"

definition swapped :: "template_exercise \<Rightarrow> template_exercise \<Rightarrow> template_exercise \<Rightarrow> template_exercise" where
  "swapped cur nb r =
     (if r = cur then r\<lparr>wte_sort_order := wte_sort_order nb\<rparr>
      else if r = nb then r\<lparr>wte_sort_order := wte_sort_order cur\<rparr>
      else r)"

text \<open>
  \<open>renumbered i ids r\<close>: the row \<open>r\<close> after the renumbering loop has run over \<open>ids\<close>,
  counting from \<open>i\<close>: the row whose id stands at position \<open>k\<close> gets the order
  \<open>i + k + 1\<close>, every other row is as it was.
\<close>

fun renumbered :: "int \<Rightarrow> int list \<Rightarrow> template_exercise \<Rightarrow> template_exercise" where
  "renumbered i [] r = r"
| "renumbered i (x # xs) r =
     (if wte_id r = x then r\<lparr>wte_sort_order := i + 1\<rparr> else renumbered (i + 1) xs r)"


text \<open>
  A call that went through \<open>pool.query\<close>; and the calls of a handler that checks out
  one client, runs every statement on it and releases it.
\<close>

definition via_pool :: "call \<Rightarrow> bool" where
  "via_pool c = (case c of Query Pool _ \<Rightarrow> True | _ \<Rightarrow> False)"

definition on_one_client :: "call list \<Rightarrow> bool" where
  "on_one_client cs = (\<exists>qs. cs = Connect # map (Query Client) qs @ [Release])"

text \<open>A step that runs its statements on the client and opens or closes no transaction.\<close>

definition client_io :: "'a io \<Rightarrow> bool" where
  "client_io m =
     (\<forall>s r s'. m s = (r, s') \<longrightarrow>
        saved s' = saved s \<and> (\<exists>qs. calls s' = calls s @ map (Query Client) qs))"

section \<open>Properties of parseTSV\<close>

lemma split_on_nonempty: "split_on c s \<noteq> []"
  by (induction s) (auto split: list.splits)

lemma hd_split_on: "hd (split_on c s) = takeWhile (\<lambda>x. x \<noteq> c) s"
  by (induction s) (auto split: list.splits simp: split_on_nonempty)

lemma ex_dropWhile: "(\<exists>x \<in> set (dropWhile P l). \<not> P x) \<longleftrightarrow> (\<exists>x \<in> set l. \<not> P x)"
  by (induction l) auto

lemma trim_nonempty_iff: "trim l \<noteq> [] \<longleftrightarrow> (\<exists>x \<in> set l. \<not> is_ws x)"
  by (simp add: trim_def dropWhile_eq_Nil_conv ex_dropWhile)

lemma trim_hd: "trim s \<noteq> [] \<Longrightarrow> \<not> is_ws (hd (trim s))"
proof -
  assume ne: "trim s \<noteq> []"
  define u where "u = dropWhile is_ws s"
  have "\<exists>x \<in> set u. \<not> is_ws x"
    using ne unfolding u_def by (simp add: trim_nonempty_iff ex_dropWhile)
  then have u: "u \<noteq> []" by auto
  then have hu: "\<not> is_ws (hd u)" unfolding u_def by (simp add: hd_dropWhile)
  have "dropWhile is_ws (rev u) \<noteq> []" using ne by (simp add: trim_def u_def)
  then obtain a b where ab: "rev u = a @ b" "b = dropWhile is_ws (rev u)" "b \<noteq> []"
    by (metis takeWhile_dropWhile_id)
  then have "u = rev b @ rev a" by (metis rev_append rev_rev_ident)
  then have "hd (rev b) = hd u" using ab(3) by simp
  then show ?thesis using hu ab by (simp add: trim_def u_def)
qed


lemma nonblank_lines_nonempty:
  assumes "normalize_text s \<noteq> []"
  shows "nonblank_lines (normalize_text s) \<noteq> []"
proof -
  let ?t = "normalize_text s"
  have t: "?t = trim (replace_cr (replace_crlf s))" by (simp add: normalize_text_def)
  have h: "\<not> is_ws (hd ?t)" using assms trim_hd unfolding t by blast
  have "hd ?t \<noteq> LF" using h by (auto simp: is_ws_def LF_def)
  then have "hd ?t \<in> set (takeWhile (\<lambda>x. x \<noteq> LF) ?t)"
    using assms by (cases ?t) auto
  then have "trim (hd (split_on LF ?t)) \<noteq> []"
    using h by (auto simp: trim_nonempty_iff hd_split_on)
  moreover have "hd (split_on LF ?t) \<in> set (split_on LF ?t)"
    by (simp add: split_on_nonempty)
  ultimately show ?thesis
    by (auto simp: nonblank_lines_def filter_empty_conv)
qed

lemma parseTSV_total: "\<exists>headers rows. parseTSV s = Inr (headers, rows)"
  using nonblank_lines_nonempty[of s]
  by (auto simp: parseTSV_def Let_def split: list.splits)


lemma map_of_obj_set:
  "map_of (obj_set k v obj) k' =
     (if k = ''__proto__'' then map_of obj k' else if k' = k then Some v else map_of obj k')"
  by (simp add: obj_set_def update_conv')

lemma keys_obj_set:
  "fst ` set (obj_set k v obj) =
     (if k = ''__proto__'' then fst ` set obj else insert k (fst ` set obj))"
  using dom_update[of k v obj] by (simp add: obj_set_def dom_map_of_conv_image_fst)

lemma row_of_cols_Suc:
  "foldl (\<lambda>obj j. obj_set (hs ! j) (f j) obj) [] [0..<Suc n] =
     obj_set (hs ! n) (f n) (foldl (\<lambda>obj j. obj_set (hs ! j) (f j) obj) [] [0..<n])"
  by simp

lemma fold_obj_keys:
  "fst ` set (foldl (\<lambda>obj j. obj_set (hs ! j) (f j) obj) [] [0..<n]) =
     {hs ! j | j. j < n} - {''__proto__''}"
proof (induction n)
  case 0
  then show ?case by simp
next
  case (Suc n)
  have "{hs ! j | j. j < Suc n} = insert (hs ! n) {hs ! j | j. j < n}"
    by (auto simp: less_Suc_eq)
  then show ?case
    unfolding row_of_cols_Suc keys_obj_set Suc.IH by auto
qed

lemma fold_obj_lookup:
  "j < n \<Longrightarrow> hs ! j \<noteq> ''__proto__'' \<Longrightarrow> (\<forall>j' < n. j < j' \<longrightarrow> hs ! j' \<noteq> hs ! j) \<Longrightarrow>
   map_of (foldl (\<lambda>obj j. obj_set (hs ! j) (f j) obj) [] [0..<n]) (hs ! j) = Some (f j)"
proof (induction n)
  case 0
  then show ?case by simp
next
  case (Suc n)
  show ?case
  proof (cases "j = n")
    case True
    then show ?thesis using Suc.prems unfolding row_of_cols_Suc map_of_obj_set by simp
  next
    case False
    then have jn: "j < n" using Suc.prems by simp
    have ne: "hs ! n \<noteq> hs ! j" using Suc.prems jn by simp
    have "map_of (foldl (\<lambda>obj j. obj_set (hs ! j) (f j) obj) [] [0..<n]) (hs ! j) = Some (f j)"
      using Suc.IH jn Suc.prems by simp
    then show ?thesis unfolding row_of_cols_Suc map_of_obj_set using ne by simp
  qed
qed

lemma row_of_cols_keys:
  "fst ` set (row_of_cols headers cols) = set headers - {''__proto__''}"
  unfolding row_of_cols_def fold_obj_keys by (simp add: set_conv_nth)

lemma row_of_cols_lookup:
  "j < length headers \<Longrightarrow> headers ! j \<noteq> ''__proto__'' \<Longrightarrow>
   (\<forall>j' < length headers. j < j' \<longrightarrow> headers ! j' \<noteq> headers ! j) \<Longrightarrow>
   map_of (row_of_cols headers cols) (headers ! j) = Some (trim (cell cols j))"
  unfolding row_of_cols_def by (rule fold_obj_lookup)

lemma set_replace_crlf: "set (replace_crlf s) \<subseteq> set s"
  by (induction s rule: replace_crlf.induct) auto

lemma blank_normalize: "\<forall>c \<in> set s. is_ws c \<Longrightarrow> normalize_text s = []"
proof -
  assume a: "\<forall>c \<in> set s. is_ws c"
  have "\<forall>c \<in> set (replace_cr (replace_crlf s)). is_ws c"
    using a set_replace_crlf[of s] by (auto simp: replace_cr_def is_ws_def LF_def)
  then show ?thesis
    using trim_nonempty_iff[of "replace_cr (replace_crlf s)"] by (auto simp: normalize_text_def)
qed

lemma nonblank_lines_Nil: "nonblank_lines [] = []"
  by (simp add: nonblank_lines_def trim_def)

text \<open>
  C10 (as amended). \<open>parseTSV\<close> returns for every input string. With the line endings
  normalised and the whole text trimmed, the headers are the trimmed tab-separated cells
  of the first non-blank line and there is one row per later non-blank line. The keys of
  a row are the headers other than \<open>__proto__\<close>, and under a header the row holds the
  trimmed cell of the last column that carries this header, the empty string when the
  line has no such cell; cells beyond the headers are dropped. An input of white space
  only gives no headers and no rows.
\<close>

theorem parseTSV_shape:
  "\<exists>headers rows. parseTSV s = Inr (headers, rows) \<and>
     ((\<forall>c \<in> set s. is_ws c) \<longrightarrow> headers = [] \<and> rows = []) \<and>
     (case nonblank_lines (normalize_text s) of
        [] \<Rightarrow> headers = [] \<and> rows = []
      | l0 # rest \<Rightarrow>
          headers = map trim (split_on TAB l0) \<and>
          length rows = length rest \<and>
          (\<forall>i < length rest.
             fst ` set (rows ! i) = set headers - {''__proto__''} \<and>
             (\<forall>j < length headers.
                headers ! j \<noteq> ''__proto__'' \<and>
                (\<forall>j' < length headers. j < j' \<longrightarrow> headers ! j' \<noteq> headers ! j) \<longrightarrow>
                map_of (rows ! i) (headers ! j) =
                  Some (trim (cell (split_on TAB (rest ! i)) j)))))"
proof (cases "normalize_text s = []")
  case True
  then show ?thesis by (simp add: parseTSV_def nonblank_lines_Nil)
next
  case False
  then obtain l0 rest where ls: "nonblank_lines (normalize_text s) = l0 # rest"
    using nonblank_lines_nonempty[of s] by (cases "nonblank_lines (normalize_text s)") auto
  have nb: "\<not> (\<forall>c \<in> set s. is_ws c)" using False blank_normalize by blast
  define hs where "hs = map trim (split_on TAB l0)"
  define rows where
    "rows = map (\<lambda>i. row_of_cols hs (split_on TAB ((l0 # rest) ! i))) [1..<length (l0 # rest)]"
  have p: "parseTSV s = Inr (hs, rows)"
    using False ls by (simp add: parseTSV_def Let_def hs_def rows_def del: upt_Suc)
  have len: "length rows = length rest" by (simp add: rows_def del: upt_Suc)
  have row: "rows ! i = row_of_cols hs (split_on TAB (rest ! i))" if "i < length rest" for i
    using that by (simp add: rows_def nth_map_upt del: upt_Suc)
  have hs: "hs = map trim (split_on TAB l0)" by (rule hs_def)
  have body: "fst ` set (rows ! i) = set hs - {''__proto__''} \<and>
             (\<forall>j < length hs.
                hs ! j \<noteq> ''__proto__'' \<and>
                (\<forall>j' < length hs. j < j' \<longrightarrow> hs ! j' \<noteq> hs ! j) \<longrightarrow>
                map_of (rows ! i) (hs ! j) =
                  Some (trim (cell (split_on TAB (rest ! i)) j)))" if "i < length rest" for i
    using row[OF that] row_of_cols_keys[of hs] row_of_cols_lookup[of _ hs] by simp
  show ?thesis
    apply (rule exI[of _ hs], rule exI[of _ rows])
    apply (simp only: ls list.case p)
    using nb hs len body by blast
qed

lemma tsv_example_lines:
  "nonblank_lines (normalize_text (''a'' @ [TAB] @ ''b'' @ [CR, LF] @ '' 1'' @ [TAB] @ ''2 '' @ [TAB] @ ''3'' @ [LF])) =
     [''a'' @ [TAB] @ ''b'', '' 1'' @ [TAB] @ ''2 '' @ [TAB] @ ''3'']"
  by code_simp

theorem parseTSV_shape_witness:
  "\<exists>headers rows.
     parseTSV (''a'' @ [TAB] @ ''b'' @ [CR, LF] @ '' 1'' @ [TAB] @ ''2 '' @ [TAB] @ ''3'' @ [LF]) = Inr (headers, rows) \<and>
     headers = [''a'', ''b''] \<and> length rows = 1 \<and>
     fst ` set (rows ! 0) = {''a'', ''b''} \<and>
     map_of (rows ! 0) ''a'' = Some ''1'' \<and> map_of (rows ! 0) ''b'' = Some ''2''"
proof -
  let ?s = "''a'' @ [TAB] @ ''b'' @ [CR, LF] @ '' 1'' @ [TAB] @ ''2 '' @ [TAB] @ ''3'' @ [LF]"
  have hs: "map trim (split_on TAB (''a'' @ [TAB] @ ''b'')) = [''a'', ''b'']" by code_simp
  have c0: "trim (cell (split_on TAB ('' 1'' @ [TAB] @ ''2 '' @ [TAB] @ ''3'')) 0) = ''1''" by code_simp
  have c1: "trim (cell (split_on TAB ('' 1'' @ [TAB] @ ''2 '' @ [TAB] @ ''3'')) 1) = ''2''" by code_simp
  obtain headers rows where r: "parseTSV ?s = Inr (headers, rows)"
    and h: "headers = [''a'', ''b'']" and l: "length rows = 1"
    and k: "fst ` set (rows ! 0) = set headers - {''__proto__''}"
    and v: "\<forall>j < length headers.
              headers ! j \<noteq> ''__proto__'' \<and>
              (\<forall>j' < length headers. j < j' \<longrightarrow> headers ! j' \<noteq> headers ! j) \<longrightarrow>
              map_of (rows ! 0) (headers ! j) =
                Some (trim (cell (split_on TAB ('' 1'' @ [TAB] @ ''2 '' @ [TAB] @ ''3'')) j))"
    using parseTSV_shape[of ?s] unfolding tsv_example_lines list.case hs by auto
  have "map_of (rows ! 0) ''a'' = Some ''1''"
    using v[rule_format, of 0] h c0 by (simp add: less_Suc_eq)
  moreover have "map_of (rows ! 0) ''b'' = Some ''2''"
    using v[rule_format, of 1] h c1 by simp
  moreover have "fst ` set (rows ! 0) = {''a'', ''b''}" using k h by auto
  ultimately show ?thesis using r h l by blast
qed

lemma tsv_cex1: "parseTSV ([TAB] @ ''a'') = Inr ([''a''], [])"
  by code_simp

lemma tsv_cex1_lines: "spec_lines ([TAB] @ ''a'') = [[TAB] @ ''a'']"
  by code_simp

lemma tsv_cex2: "parseTSV (''a'' @ [TAB] @ ''a'' @ [LF] @ ''1'' @ [TAB] @ ''2'') = Inr ([''a'', ''a''], [[(''a'', ''2'')]])"
  by code_simp

lemma tsv_cex2_lines:
  "spec_lines (''a'' @ [TAB] @ ''a'' @ [LF] @ ''1'' @ [TAB] @ ''2'') = [''a'' @ [TAB] @ ''a'', ''1'' @ [TAB] @ ''2'']"
  by code_simp

lemma tsv_cex3: "parseTSV (''__proto__'' @ [LF] @ ''1'') = Inr ([''__proto__''], [[]])"
  by code_simp

lemma tsv_cex3_lines: "spec_lines (''__proto__'' @ [LF] @ ''1'') = [''__proto__'', ''1'']"
  by code_simp

lemma parseTSV_claim_headers:
  "parseTSV_claim s \<Longrightarrow> parseTSV s = Inr (hs, rows) \<Longrightarrow> spec_lines s = l0 # rest \<Longrightarrow>
   hs = map trim (split_on TAB l0)"
  by (simp add: parseTSV_claim_def)

lemma parseTSV_claim_keys:
  "parseTSV_claim s \<Longrightarrow> parseTSV s = Inr (hs, rows) \<Longrightarrow> spec_lines s = l0 # rest \<Longrightarrow>
   i < length rest \<Longrightarrow> fst ` set (rows ! i) = set hs"
  by (simp add: parseTSV_claim_def)

lemma parseTSV_claim_value:
  "parseTSV_claim s \<Longrightarrow> parseTSV s = Inr (hs, rows) \<Longrightarrow> spec_lines s = l0 # rest \<Longrightarrow>
   i < length rest \<Longrightarrow> j < length hs \<Longrightarrow>
   map_of (rows ! i) (hs ! j) = Some (trim (cell (split_on TAB (rest ! i)) j))"
  unfolding parseTSV_claim_def by (simp only: sum.case prod.case list.case) blast

text \<open>
  C10 as the specification words it fails on three inputs: a first line that starts with
  a tab (the whole text is trimmed before it is split, so the empty first header cell is
  lost), a header that occurs twice (the later column overwrites the earlier one), and a
  header \<open>__proto__\<close> (no key appears for it).
\<close>

theorem parseTSV_claim_counterexample:
  "\<not> parseTSV_claim ([TAB] @ ''a'') \<and>
   \<not> parseTSV_claim (''a'' @ [TAB] @ ''a'' @ [LF] @ ''1'' @ [TAB] @ ''2'') \<and>
   \<not> parseTSV_claim (''__proto__'' @ [LF] @ ''1'')"
proof (intro conjI notI)
  have h: "map trim (split_on TAB ([TAB] @ ''a'')) = [[], ''a'']" by code_simp
  assume "parseTSV_claim ([TAB] @ ''a'')"
  from parseTSV_claim_headers[OF this tsv_cex1 tsv_cex1_lines]
  show False unfolding h by simp
next
  have c: "trim (cell (split_on TAB (''1'' @ [TAB] @ ''2'')) 0) = ''1''" by code_simp
  assume "parseTSV_claim (''a'' @ [TAB] @ ''a'' @ [LF] @ ''1'' @ [TAB] @ ''2'')"
  from parseTSV_claim_value[OF this tsv_cex2 tsv_cex2_lines, of 0 0]
  have "map_of [(''a'', ''2'')] ''a'' = Some (trim (cell (split_on TAB (''1'' @ [TAB] @ ''2'')) 0))"
    by (simp only: nth_Cons_0 length_Cons list.size)
  then show False unfolding c by simp
next
  assume "parseTSV_claim (''__proto__'' @ [LF] @ ''1'')"
  from parseTSV_claim_keys[OF this tsv_cex3 tsv_cex3_lines, of 0]
  show False by simp
qed
section \<open>Basic facts about steps, statements and parameters\<close>








lemma id_int4_of_int: "int4 e \<Longrightarrow> id_int4 (Some (of_int e)) = Inr (Some e)"
  by simp

lemma db_write_accept:
  "\<not> rejects env st (data s) \<Longrightarrow>
   db_write ch env st s = (Inr (), s\<lparr>calls := calls s @ [Query ch (Write st)], data := exec st (data s)\<rparr>)"
  by (simp add: db_write_def logged_def Let_def)

lemma db_write_reject:
  "rejects env st (data s) \<Longrightarrow>
   db_write ch env st s = (Inl DbError, s\<lparr>calls := calls s @ [Query ch (Write st)]\<rparr>)"
  by (simp add: db_write_def logged_def Let_def)

lemma usable_of_int: "usable (Some (of_int p)) \<longleftrightarrow> p \<noteq> 0"
  by (simp add: usable_def)


lemma data_begin_tx [simp]: "data (begin_tx ch s) = data s"
  by (simp add: begin_tx_def logged_def split: option.splits)

lemma data_connect [simp]: "data (connect s) = data s"
  by (simp add: connect_def logged_def)

lemma data_release [simp]: "data (release s) = data s"
  by (simp add: release_def logged_def)

lemma data_commit_tx [simp]: "data (commit_tx ch s) = data s"
  by (simp add: commit_tx_def logged_def)

lemma asInt_Num: "asInt c (JNum (Num r)) = Some r"
  by (simp add: asInt_def)

lemma filter_plans:
  "filter (\<lambda>q. sql_eq (Some (wp_id q)) (Some pid)) xs = filter (\<lambda>q. wp_id q = pid) xs"
  by (auto simp: sql_eq_def intro: filter_cong)

lemma distinct_key_eq:
  "distinct (map f xs) \<Longrightarrow> x \<in> set xs \<Longrightarrow> y \<in> set xs \<Longrightarrow> f x = f y \<longleftrightarrow> x = y"
  by (auto simp: distinct_map inj_on_def)

lemma getWorkoutTemplate_Inr:
  "int4 w \<Longrightarrow> \<exists>d. getWorkoutTemplate db (Some (of_int w)) = Inr d"
  by (auto simp: getWorkoutTemplate_def try_bind_def split: list.splits)


section \<open>Replacing the sets of a session and exercise\<close>






section \<open>Deleting an exercise\<close>

text \<open>
  C3. Let the route parameter read as the integer \<open>e\<close>. If a row of
  \<open>workout_template_exercises\<close> refers to exercise \<open>e\<close>, DELETE /api/exercises/:id answers
  409 and the state is unchanged. If no row refers to it and the database accepts the
  statement, the handler answers 200, the exercise rows with id \<open>e\<close> are gone, and the
  other exercise rows and all other tables are as before.
\<close>

theorem delete_exercise_conflict:
  assumes "asInt (coerce env) (JStr id_param) = Some (of_int e)" and "int4 e"
  shows "((\<exists>r \<in> set (workout_template_exercises (data s)). wte_exercise_id r = e) \<longrightarrow>
            (\<exists>msg. delete_exercise env id_param s = (Response 409 (ErrorMsg msg), s))) \<and>
         ((\<forall>r \<in> set (workout_template_exercises (data s)). wte_exercise_id r \<noteq> e) \<and>
          \<not> rejects env (DeleteExercise (Some e)) (data s) \<longrightarrow>
            (\<exists>s'. delete_exercise env id_param s = (Response 200 OkTrue, s') \<and>
                  data s' = (data s)\<lparr>exercises :=
                    filter (\<lambda>r. e_id r \<noteq> e) (exercises (data s))\<rparr>))"
proof (intro conjI impI)
  assume "\<exists>r \<in> set (workout_template_exercises (data s)). wte_exercise_id r = e"
  then have "filter (\<lambda>r. sql_eq (Some (wte_exercise_id r)) (Some e))
               (workout_template_exercises (data s)) \<noteq> []"
    by (auto simp: filter_empty_conv sql_eq_def)
  then show "\<exists>msg. delete_exercise env id_param s = (Response 409 (ErrorMsg msg), s)"
    using assms by (simp add: delete_exercise_def Let_def)
next
  assume a: "(\<forall>r \<in> set (workout_template_exercises (data s)). wte_exercise_id r \<noteq> e) \<and>
          \<not> rejects env (DeleteExercise (Some e)) (data s)"
  then have "filter (\<lambda>r. sql_eq (Some (wte_exercise_id r)) (Some e))
               (workout_template_exercises (data s)) = []"
    by (auto simp: filter_empty_conv sql_eq_def)
  then show "\<exists>s'. delete_exercise env id_param s = (Response 200 OkTrue, s') \<and>
                  data s' = (data s)\<lparr>exercises :=
                    filter (\<lambda>r. e_id r \<noteq> e) (exercises (data s))\<rparr>"
    using assms a by (simp add: delete_exercise_def Let_def db_write_accept sql_eq_def)
qed

lemma asInt_example: "asInt (coerce env0) (JStr ''2'') = Some (of_int 2)"
  by code_simp

lemma asInt_example4: "asInt (coerce env0) (JStr ''4'') = Some (of_int 4)"
  by code_simp

theorem delete_exercise_conflict_witness:
  "(\<exists>msg. delete_exercise env0 ''2'' srv0 = (Response 409 (ErrorMsg msg), srv0)) \<and>
   (\<exists>s'. delete_exercise env0 ''4'' srv0 = (Response 200 OkTrue, s') \<and>
         exercises (data s') = [\<lparr>e_id = 1, e_name = ''Squat''\<rparr>, \<lparr>e_id = 2, e_name = ''Bench''\<rparr>,
                      \<lparr>e_id = 3, e_name = ''Row''\<rparr>])"
proof -
  have i2: "int4 2" and i4: "int4 4" by (simp_all add: int4_def)
  have u2: "\<exists>r \<in> set (workout_template_exercises (data srv0)). wte_exercise_id r = 2"
    by (simp add: srv0_def db0_def)
  have u4: "(\<forall>r \<in> set (workout_template_exercises (data srv0)). wte_exercise_id r \<noteq> 4) \<and>
          \<not> rejects env0 (DeleteExercise (Some 4)) (data srv0)"
    by (simp add: srv0_def db0_def env0_def)
  have f: "filter (\<lambda>r. e_id r \<noteq> 4) (exercises (data srv0)) =
      [\<lparr>e_id = 1, e_name = ''Squat''\<rparr>, \<lparr>e_id = 2, e_name = ''Bench''\<rparr>, \<lparr>e_id = 3, e_name = ''Row''\<rparr>]"
    by (simp add: srv0_def db0_def)
  from delete_exercise_conflict[OF asInt_example i2, of srv0] u2
  have a: "\<exists>msg. delete_exercise env0 ''2'' srv0 = (Response 409 (ErrorMsg msg), srv0)" by blast
  from delete_exercise_conflict[OF asInt_example4 i4, of srv0] u4 f
  have b: "\<exists>s'. delete_exercise env0 ''4'' srv0 = (Response 200 OkTrue, s') \<and>
         exercises (data s') = [\<lparr>e_id = 1, e_name = ''Squat''\<rparr>, \<lparr>e_id = 2, e_name = ''Bench''\<rparr>,
                      \<lparr>e_id = 3, e_name = ''Row''\<rparr>]" by auto
  from a b show ?thesis by blast
qed

section \<open>Deleting a plan\<close>



section \<open>Logging one set\<close>

text \<open>
  C9 fails for POST /api/sets: the handler binds the fields of the body as they are. For
  a body without \<open>session_id\<close>, \<open>exercise_id\<close> and \<open>set_number\<close> it sends an INSERT of
  NULLs and answers 200 when the database accepts it; when the database refuses, the
  promise rejects and no response is sent. It never answers 400.
\<close>

theorem post_sets_not_validated:
  "fst (post_sets env [] s) =
     (if rejects env
           (InsertSet \<lparr>es_session_id = None, es_exercise_id = None, es_set_number = None,
                       es_weight = SqlNull, es_reps = SqlNull, es_rpe = SqlNull\<rparr>) (data s)
      then Unhandled else Response 200 OkTrue)"
  by (simp add: post_sets_def field_def and_then_def lift_def try_bind_def db_write_def Let_def)

lemma post_sets_never_400: "fst (post_sets env b s) = Unhandled \<or> fst (post_sets env b s) = Response 200 OkTrue"
  by (auto simp: post_sets_def and_then_def lift_def split: prod.splits sum.splits)
section \<open>Starting a session\<close>

text \<open>
  C7 (as amended). A field is usable when \<open>asInt\<close> turns it into a finite number other
  than 0. POST /api/sessions answers 400 when neither \<open>workout_template_id\<close> nor
  \<open>plan_id\<close> is usable, and 400 when both are. When only \<open>plan_id\<close> is usable and is an
  integer \<open>pid\<close>: with no plan of that id the answer is 404 and nothing changes; with a
  plan whose \<open>base_template_id\<close> is a non-zero integer, and an INSERT that the database
  accepts, the answer is 200 and exactly one session row is added, holding \<open>pid\<close>, the
  plan's \<open>base_template_id\<close> as \<open>workout_template_id\<close>, and as \<open>performed_on\<close> the
  supplied value or, when it is null or missing, the current date.
\<close>

theorem post_sessions_cases:
  assumes t: "t = asInt (coerce env) (field b ''workout_template_id'')"
    and p: "p = asInt (coerce env) (field b ''plan_id'')"
    and c: "c = asInt (coerce env) (field b ''workout_calendar_id'')"
  shows
    "(\<not> usable t \<and> \<not> usable p \<longrightarrow>
        post_sessions env b s =
          (Response 400 (ErrorMsg ''workout_template_id or plan_id required''), s)) \<and>
     (usable t \<and> usable p \<longrightarrow>
        post_sessions env b s =
          (Response 400 (ErrorMsg ''Send only one of workout_template_id or plan_id''), s)) \<and>
     (\<not> usable t \<and> p = Some (of_int pid) \<and> pid \<noteq> 0 \<and> int4 pid \<and>
      (\<forall>q \<in> set (workout_plans (data s)). wp_id q \<noteq> pid) \<longrightarrow>
        post_sessions env b s = (Response 404 (ErrorMsg ''Plan not found''), s)) \<and>
     (\<not> usable t \<and> p = Some (of_int pid) \<and> pid \<noteq> 0 \<and> int4 pid \<and>
      filter (\<lambda>q. wp_id q = pid) (workout_plans (data s)) = plan # others \<and>
      wp_base_template_id plan = Some tb \<and> tb \<noteq> 0 \<and> int4 tb \<and>
      id_int4 c = Inr ci \<and>
      row = \<lparr>ws_id = new_id env (data s), ws_template_id = Some tb, ws_plan_id = Some pid,
             ws_calendar_id = ci,
             ws_performed_on =
               (if nullish (field b ''performed_on'') then SqlText (today env)
                else bind_param (field b ''performed_on''))\<rparr> \<and>
      \<not> rejects env (InsertSession row) (data s) \<longrightarrow>
        (\<exists>s'. post_sessions env b s =
                (Response 200 (SessionStarted (ws_id row) (Some (of_int tb)) p c), s') \<and>
              data s' = (data s)\<lparr>workout_sessions := workout_sessions (data s) @ [row]\<rparr>))"
proof (intro conjI impI)
  assume "\<not> usable t \<and> \<not> usable p"
  then show "post_sessions env b s =
          (Response 400 (ErrorMsg ''workout_template_id or plan_id required''), s)"
    using t p by (simp add: post_sessions_def Let_def)
next
  assume "usable t \<and> usable p"
  then show "post_sessions env b s =
          (Response 400 (ErrorMsg ''Send only one of workout_template_id or plan_id''), s)"
    using t p by (simp add: post_sessions_def Let_def)
next
  assume a: "\<not> usable t \<and> p = Some (of_int pid) \<and> pid \<noteq> 0 \<and> int4 pid \<and>
      (\<forall>q \<in> set (workout_plans (data s)). wp_id q \<noteq> pid)"
  then have u: "usable p" by (simp add: usable_of_int)
  have f: "filter (\<lambda>q. sql_eq (Some (wp_id q)) (Some pid)) (workout_plans (data s)) = []"
    using a by (simp add: filter_plans filter_empty_conv)
  show "post_sessions env b s = (Response 404 (ErrorMsg ''Plan not found''), s)"
    using a u f t p[symmetric] by (simp add: post_sessions_def Let_def)
next
  assume a: "\<not> usable t \<and> p = Some (of_int pid) \<and> pid \<noteq> 0 \<and> int4 pid \<and>
      filter (\<lambda>q. wp_id q = pid) (workout_plans (data s)) = plan # others \<and>
      wp_base_template_id plan = Some tb \<and> tb \<noteq> 0 \<and> int4 tb \<and>
      id_int4 c = Inr ci \<and>
      row = \<lparr>ws_id = new_id env (data s), ws_template_id = Some tb, ws_plan_id = Some pid,
             ws_calendar_id = ci,
             ws_performed_on =
               (if nullish (field b ''performed_on'') then SqlText (today env)
                else bind_param (field b ''performed_on''))\<rparr> \<and>
      \<not> rejects env (InsertSession row) (data s)"
  then have u: "usable p" by (simp add: usable_of_int)
  have f: "filter (\<lambda>q. sql_eq (Some (wp_id q)) (Some pid)) (workout_plans (data s)) = plan # others"
    using a by (simp add: filter_plans)
  have tb: "asInt (coerce env) (db_int (wp_base_template_id plan)) = Some (of_int tb)"
    using a by (simp add: asInt_Num)
  have utb: "usable (Some (of_int tb :: rat))" using a by (simp add: usable_of_int)
  have sr: "session_row env (data s) (Some (of_int tb)) p c
              (if nullish (field b ''performed_on'') then JStr (today env)
               else field b ''performed_on'') = Inr (InsertSession row)"
    using a by (simp add: session_row_def try_bind_def)
  have acc: "\<not> rejects env (InsertSession row) (data s)" using a by blast
  have "exec (InsertSession row) (data s) =
          (data s)\<lparr>workout_sessions := workout_sessions (data s) @ [row]\<rparr>" by simp
  then have ins: "\<exists>s'. insert_session env (Some (of_int tb)) p c
              (if nullish (field b ''performed_on'') then JStr (today env)
               else field b ''performed_on'') s =
           (Response 200 (SessionStarted (new_id env (data s)) (Some (of_int tb)) p c), s') \<and>
           data s' = (data s)\<lparr>workout_sessions := workout_sessions (data s) @ [row]\<rparr>"
    unfolding insert_session_def and_then_def lift_def sr
    by (simp add: db_write_accept[OF acc])
  have rid: "ws_id row = new_id env (data s)" using a by simp
  have nt: "\<not> usable t" and ip: "int4 pid" and pp: "p = Some (of_int pid)"
    and bt: "wp_base_template_id plan = Some tb" using a by blast+
  have "post_sessions env b s =
     insert_session env (Some (of_int tb)) p c
              (if nullish (field b ''performed_on'') then JStr (today env)
               else field b ''performed_on'') s"
    unfolding post_sessions_def Let_def t[symmetric] p[symmetric] c[symmetric]
    using nt u ip f tb utb bt by (simp add: pp asInt_Num)
  then show "\<exists>s'. post_sessions env b s =
                (Response 200 (SessionStarted (ws_id row) (Some (of_int tb)) p c), s') \<and>
              data s' = (data s)\<lparr>workout_sessions := workout_sessions (data s) @ [row]\<rparr>"
    using ins rid by simp
qed

theorem post_sessions_cases_witness:
  "post_sessions env0 [] srv0 =
     (Response 400 (ErrorMsg ''workout_template_id or plan_id required''), srv0) \<and>
   post_sessions env0 [(''workout_template_id'', JNum (Num 1)), (''plan_id'', JNum (Num 5))] srv0 =
     (Response 400 (ErrorMsg ''Send only one of workout_template_id or plan_id''), srv0) \<and>
   post_sessions env0 [(''plan_id'', JNum (Num 99))] srv0 =
     (Response 404 (ErrorMsg ''Plan not found''), srv0) \<and>
   (\<exists>s'. post_sessions env0 [(''plan_id'', JStr ''5'')] srv0 =
            (Response 200 (SessionStarted 21 (Some 1) (Some 5) None), s') \<and>
          data s' = db0\<lparr>workout_sessions := workout_sessions db0 @
            [\<lparr>ws_id = 21, ws_template_id = Some 1, ws_plan_id = Some 5, ws_calendar_id = None,
              ws_performed_on = SqlText ''2024-05-06''\<rparr>]\<rparr>)"
proof (intro conjI)
  have "\<not> usable (asInt (coerce env0) (field [] ''workout_template_id'')) \<and>
        \<not> usable (asInt (coerce env0) (field [] ''plan_id''))"
    by (simp add: field_def asInt_def usable_def)
  with post_sessions_cases[OF refl refl refl, of env0 "[]" srv0]
  show "post_sessions env0 [] srv0 =
     (Response 400 (ErrorMsg ''workout_template_id or plan_id required''), srv0)" by blast
next
  let ?b = "[(''workout_template_id'', JNum (Num 1)), (''plan_id'', JNum (Num 5))]"
  have "usable (asInt (coerce env0) (field ?b ''workout_template_id'')) \<and>
        usable (asInt (coerce env0) (field ?b ''plan_id''))"
    by (simp add: field_def asInt_def usable_def)
  with post_sessions_cases[OF refl refl refl, of env0 ?b srv0]
  show "post_sessions env0 ?b srv0 =
     (Response 400 (ErrorMsg ''Send only one of workout_template_id or plan_id''), srv0)" by blast
next
  let ?b = "[(''plan_id'', JNum (Num 99))]"
  have "\<not> usable (asInt (coerce env0) (field ?b ''workout_template_id'')) \<and>
        asInt (coerce env0) (field ?b ''plan_id'') = Some (of_int 99) \<and> (99::int) \<noteq> 0 \<and> int4 99 \<and>
        (\<forall>q \<in> set (workout_plans (data srv0)). wp_id q \<noteq> 99)"
    by (simp add: field_def asInt_def usable_def int4_def srv0_def db0_def)
  with post_sessions_cases[OF refl refl refl, of env0 ?b srv0 99]
  show "post_sessions env0 ?b srv0 = (Response 404 (ErrorMsg ''Plan not found''), srv0)" by blast
next
  let ?b = "[(''plan_id'', JStr ''5'')]"
  let ?row = "\<lparr>ws_id = 21, ws_template_id = Some 1, ws_plan_id = Some 5, ws_calendar_id = None,
              ws_performed_on = SqlText ''2024-05-06''\<rparr>"
  let ?plan = "\<lparr>wp_id = 5, wp_name = ''Heavy'', wp_base_template_id = Some 1\<rparr>"
  have p5: "asInt (coerce env0) (field ?b ''plan_id'') = Some (of_int 5)" by code_simp
  have nid: "new_id env0 (data srv0) = 21" by code_simp
  have td: "today env0 = ''2024-05-06''" by (simp add: env0_def)
  have h: "\<not> usable (asInt (coerce env0) (field ?b ''workout_template_id'')) \<and>
      asInt (coerce env0) (field ?b ''plan_id'') = Some (of_int 5) \<and> (5::int) \<noteq> 0 \<and> int4 5 \<and>
      filter (\<lambda>q. wp_id q = 5) (workout_plans (data srv0)) = ?plan # [] \<and>
      wp_base_template_id ?plan = Some 1 \<and> (1::int) \<noteq> 0 \<and> int4 1 \<and>
      id_int4 (asInt (coerce env0) (field ?b ''workout_calendar_id'')) = Inr None \<and>
      ?row = \<lparr>ws_id = new_id env0 (data srv0), ws_template_id = Some 1, ws_plan_id = Some 5,
             ws_calendar_id = None,
             ws_performed_on =
               (if nullish (field ?b ''performed_on'') then SqlText (today env0)
                else bind_param (field ?b ''performed_on''))\<rparr> \<and>
      \<not> rejects env0 (InsertSession ?row) (data srv0)"
    unfolding p5 nid td
    by (simp add: field_def asInt_def usable_def int4_def srv0_def db0_def nullish_def env0_def)
  from post_sessions_cases[OF refl refl refl, of env0 ?b srv0 5 ?plan "[]" 1 None ?row] h
  have "\<exists>s'. post_sessions env0 ?b srv0 =
                (Response 200 (SessionStarted (ws_id ?row) (Some (of_int 1))
                   (asInt (coerce env0) (field ?b ''plan_id''))
                   (asInt (coerce env0) (field ?b ''workout_calendar_id''))), s') \<and>
              data s' = (data srv0)\<lparr>workout_sessions := workout_sessions (data srv0) @ [?row]\<rparr>"
    by blast
  moreover have "asInt (coerce env0) (field ?b ''workout_calendar_id'') = None"
    by (simp add: field_def asInt_def)
  moreover have "data srv0 = db0" by (simp add: srv0_def)
  ultimately show "\<exists>s'. post_sessions env0 ?b srv0 =
            (Response 200 (SessionStarted 21 (Some 1) (Some 5) None), s') \<and>
          data s' = db0\<lparr>workout_sessions := workout_sessions db0 @ [?row]\<rparr>"
    by (simp add: p5)
qed

text \<open>
  C7 as the specification words it fails on two inputs. With \<open>workout_template_id\<close> 0
  and \<open>plan_id\<close> 5 both fields are given, yet the session is created from the plan
  (0 is not usable). With a plan whose \<open>base_template_id\<close> is NULL the plan exists, yet
  the handler answers 500 and creates nothing.
\<close>

theorem post_sessions_counterexample:
  "fst (post_sessions env0
          [(''workout_template_id'', JNum (Num 0)), (''plan_id'', JNum (Num 5))] srv0) =
     Response 200 (SessionStarted 21 (Some 1) (Some 5) None) \<and>
   fst (post_sessions env0 [(''plan_id'', JNum (Num 5))]
          (srv0\<lparr>data := db0\<lparr>workout_plans :=
             [\<lparr>wp_id = 5, wp_name = ''Heavy'', wp_base_template_id = None\<rparr>]\<rparr>\<rparr>)) =
     Response 500 (ErrorMsg ''Plan has invalid base_template_id'')"
proof
  show "fst (post_sessions env0
          [(''workout_template_id'', JNum (Num 0)), (''plan_id'', JNum (Num 5))] srv0) =
     Response 200 (SessionStarted 21 (Some 1) (Some 5) None)" by code_simp
  show "fst (post_sessions env0 [(''plan_id'', JNum (Num 5))]
          (srv0\<lparr>data := db0\<lparr>workout_plans :=
             [\<lparr>wp_id = 5, wp_name = ''Heavy'', wp_base_template_id = None\<rparr>]\<rparr>\<rparr>)) =
     Response 500 (ErrorMsg ''Plan has invalid base_template_id'')" by code_simp
qed

section \<open>Moving an exercise inside a template\<close>

lemma take1_rev_sort_key:
  assumes "ys \<noteq> []"
  shows "\<exists>m. take 1 (rev (sort_key f ys)) = [m] \<and> m \<in> set ys \<and> (\<forall>y \<in> set ys. f y \<le> f m)"
proof -
  have ne: "sort_key f ys \<noteq> []" using assms by (metis length_0_conv length_sort)
  then obtain us l where z: "sort_key f ys = us @ [l]" by (cases "sort_key f ys" rule: rev_cases) auto
  have "sorted (map f (sort_key f ys))" by simp
  then have le: "\<forall>y \<in> set (us @ [l]). f y \<le> f l" unfolding z by (auto simp: sorted_append)
  have st: "set ys = set (us @ [l])" using z by (metis set_sort)
  have "take 1 (rev (sort_key f ys)) = [l]" unfolding z by simp
  then show ?thesis using le st by (intro exI[of _ l]) auto
qed

lemma take1_sort_key:
  assumes "ys \<noteq> []"
  shows "\<exists>m. take 1 (sort_key f ys) = [m] \<and> m \<in> set ys \<and> (\<forall>y \<in> set ys. f m \<le> f y)"
proof -
  have ne: "sort_key f ys \<noteq> []" using assms by (metis length_0_conv length_sort)
  then obtain z zs where z: "sort_key f ys = z # zs" by (cases "sort_key f ys") auto
  have "sorted (map f (sort_key f ys))" by simp
  then have le: "\<forall>y \<in> set (z # zs). f z \<le> f y" unfolding z by auto
  have st: "set ys = set (z # zs)" using z by (metis set_sort)
  have "take 1 (sort_key f ys) = [z]" unfolding z by simp
  then show ?thesis using le st by (intro exI[of _ z]) auto
qed

lemma neighbor_Nil:
  "(\<forall>r \<in> set (workout_template_exercises db). wte_template_id r = w \<longrightarrow> \<not> beyond up curOrder r)
   \<Longrightarrow> neighbor db up (Some w) curOrder = []"
  by (auto simp: neighbor_def beyond_def sql_eq_def filter_empty_conv)

lemma neighbor_nearest:
  assumes "\<exists>r \<in> set (workout_template_exercises db). wte_template_id r = w \<and> beyond up curOrder r"
  shows "\<exists>nb. neighbor db up (Some w) curOrder = [nb] \<and>
              nb \<in> set (workout_template_exercises db) \<and> wte_template_id nb = w \<and>
              beyond up curOrder nb \<and>
              (\<forall>r \<in> set (workout_template_exercises db).
                  wte_template_id r = w \<and> beyond up curOrder r \<longrightarrow>
                  (if up then wte_sort_order r \<le> wte_sort_order nb
                   else wte_sort_order nb \<le> wte_sort_order r))"
proof (cases up)
  case True
  let ?c = "filter (\<lambda>r. sql_eq (Some (wte_template_id r)) (Some w) \<and> wte_sort_order r < curOrder)
                (workout_template_exercises db)"
  have "rev ?c \<noteq> []" using assms True by (auto simp: beyond_def sql_eq_def filter_empty_conv)
  from take1_rev_sort_key[OF this, of wte_sort_order] obtain m where
    m: "take 1 (rev (sort_key wte_sort_order (rev ?c))) = [m]" "m \<in> set (rev ?c)"
       "\<forall>y \<in> set (rev ?c). wte_sort_order y \<le> wte_sort_order m" by blast
  show ?thesis
    using m True by (intro exI[of _ m]) (auto simp: neighbor_def beyond_def sql_eq_def)
next
  case False
  let ?c = "filter (\<lambda>r. sql_eq (Some (wte_template_id r)) (Some w) \<and> wte_sort_order r > curOrder)
                (workout_template_exercises db)"
  have "?c \<noteq> []" using assms False by (auto simp: beyond_def sql_eq_def filter_empty_conv)
  from take1_sort_key[OF this, of wte_sort_order] obtain m where
    m: "take 1 (sort_key wte_sort_order ?c) = [m]" "m \<in> set ?c"
       "\<forall>y \<in> set ?c. wte_sort_order m \<le> wte_sort_order y" by blast
  show ?thesis
    using m False by (intro exI[of _ m]) (auto simp: neighbor_def beyond_def sql_eq_def)
qed

lemma two_updates_swap:
  assumes d: "distinct (map wte_id (workout_template_exercises db))"
    and c: "cur \<in> set (workout_template_exercises db)"
    and n: "nb \<in> set (workout_template_exercises db)"
    and ne: "cur \<noteq> nb"
  shows "exec (UpdateSortOrder (wte_sort_order cur) (wte_id nb))
           (exec (UpdateSortOrder (wte_sort_order nb) (wte_id cur)) db) =
         db\<lparr>workout_template_exercises := map (swapped cur nb) (workout_template_exercises db)\<rparr>"
proof -
  have "(if wte_id (if wte_id r = wte_id cur then r\<lparr>wte_sort_order := wte_sort_order nb\<rparr> else r) = wte_id nb
         then (if wte_id r = wte_id cur then r\<lparr>wte_sort_order := wte_sort_order nb\<rparr> else r)
                \<lparr>wte_sort_order := wte_sort_order cur\<rparr>
         else (if wte_id r = wte_id cur then r\<lparr>wte_sort_order := wte_sort_order nb\<rparr> else r)) =
        swapped cur nb r" if "r \<in> set (workout_template_exercises db)" for r
    using distinct_key_eq[OF d that c] distinct_key_eq[OF d that n] distinct_key_eq[OF d c n] ne
    by (auto simp: swapped_def)
  then show ?thesis by (simp add: comp_def cong: map_cong)
qed

lemma swap_orders_accept:
  assumes "saved s = None"
    and "\<not> rejects env (UpdateSortOrder nbOrder curId) (data s)"
    and "\<not> rejects env (UpdateSortOrder curOrder nbId) (exec (UpdateSortOrder nbOrder curId) (data s))"
  shows "\<exists>s'. swap_orders env curId curOrder nbId nbOrder s = (Inr (), s') \<and>
              data s' = exec (UpdateSortOrder curOrder nbId) (exec (UpdateSortOrder nbOrder curId) (data s)) \<and>
              saved s' = None"
proof -
  define s1 where "s1 = begin_tx Pool s"
  have d1: "data s1 = data s" by (simp add: s1_def)
  define s2 where "s2 = s1\<lparr>calls := calls s1 @ [Query Pool (Write (UpdateSortOrder nbOrder curId))],
                  data := exec (UpdateSortOrder nbOrder curId) (data s1)\<rparr>"
  have w1: "db_write Pool env (UpdateSortOrder nbOrder curId) s1 = (Inr (), s2)"
    unfolding s2_def using assms(2) by (intro db_write_accept) (simp add: d1)
  have d2: "data s2 = exec (UpdateSortOrder nbOrder curId) (data s)" by (simp add: s2_def d1)
  define s3 where "s3 = s2\<lparr>calls := calls s2 @ [Query Pool (Write (UpdateSortOrder curOrder nbId))],
                  data := exec (UpdateSortOrder curOrder nbId) (data s2)\<rparr>"
  have w2: "db_write Pool env (UpdateSortOrder curOrder nbId) s2 = (Inr (), s3)"
    unfolding s3_def using assms(3) by (intro db_write_accept) (simp add: d2)
  have d3: "data s3 = exec (UpdateSortOrder curOrder nbId) (exec (UpdateSortOrder nbOrder curId) (data s))"
    by (simp add: s3_def d2)
  have "swap_orders env curId curOrder nbId nbOrder s = (Inr (), commit_tx Pool s3)"
    unfolding swap_orders_def and_then_def s1_def[symmetric] w1 prod.case sum.case w2
    by (simp add: step_def)
  moreover have "data (commit_tx Pool s3) = data s3" by simp
  moreover have "saved (commit_tx Pool s3) = None" by (simp add: commit_tx_def logged_def)
  ultimately show ?thesis using d3 by metis
qed

lemma filter_current:
  "filter (\<lambda>r. sql_eq (Some (wte_template_id r)) (Some w) \<and> sql_eq (Some (wte_exercise_id r)) (Some e)) xs =
   filter (\<lambda>r. wte_template_id r = w \<and> wte_exercise_id r = e) xs"
  by (auto simp: sql_eq_def intro: filter_cong)

text \<open>
  C5. Let the two route parameters read as the template \<open>w\<close> and the exercise \<open>e\<close>, let
  \<open>cur\<close> be the row of that exercise in the template, let the ids of the rows be
  distinct and no transaction be open. If no row of the template lies in the direction of
  the move, the handler answers 200 and the state is unchanged. Otherwise there is a row
  \<open>nb\<close> of the template in that direction with no row of the template strictly between
  \<open>cur\<close> and \<open>nb\<close>, and, when the database accepts the two updates, the handler answers
  200 and the new table is the old one with the \<open>sort_order\<close> of \<open>cur\<close> and \<open>nb\<close>
  exchanged: no other row, no other field and no other table changes.
\<close>

theorem move_swaps_neighbour:
  assumes w: "asInt (coerce env) (JStr id_param) = Some (of_int w)" and iw: "int4 w"
    and e: "asInt (coerce env) (JStr exercise_param) = Some (of_int e)" and ie: "int4 e"
    and dir: "field b ''direction'' = JStr (if up then ''up'' else ''down'')"
    and cur: "filter (\<lambda>r. wte_template_id r = w \<and> wte_exercise_id r = e)
                (workout_template_exercises (data s)) = cur # others"
    and idle: "saved s = None"
    and keys: "distinct (map wte_id (workout_template_exercises (data s)))"
  shows
    "((\<forall>r \<in> set (workout_template_exercises (data s)).
          wte_template_id r = w \<longrightarrow> \<not> beyond up (wte_sort_order cur) r) \<longrightarrow>
        (\<exists>d. move_exercise env id_param exercise_param b s = (Response 200 (TemplateData d), s))) \<and>
     ((\<exists>r \<in> set (workout_template_exercises (data s)).
          wte_template_id r = w \<and> beyond up (wte_sort_order cur) r) \<longrightarrow>
        (\<exists>nb. nb \<in> set (workout_template_exercises (data s)) \<and> wte_template_id nb = w \<and>
              beyond up (wte_sort_order cur) nb \<and>
              (\<forall>r \<in> set (workout_template_exercises (data s)).
                  wte_template_id r = w \<and> beyond up (wte_sort_order cur) r \<longrightarrow>
                  (if up then wte_sort_order r \<le> wte_sort_order nb
                   else wte_sort_order nb \<le> wte_sort_order r)) \<and>
              (\<not> rejects env (UpdateSortOrder (wte_sort_order nb) (wte_id cur)) (data s) \<and>
               \<not> rejects env (UpdateSortOrder (wte_sort_order cur) (wte_id nb))
                   (exec (UpdateSortOrder (wte_sort_order nb) (wte_id cur)) (data s)) \<longrightarrow>
                 (\<exists>d s'. move_exercise env id_param exercise_param b s =
                           (Response 200 (TemplateData d), s') \<and>
                         data s' = (data s)\<lparr>workout_template_exercises :=
                           map (swapped cur nb) (workout_template_exercises (data s))\<rparr> \<and>
                         saved s' = None))))"
proof -
  let ?rows = "workout_template_exercises (data s)"
  have d1: "\<not> (field b ''direction'' \<noteq> JStr ''up'' \<and> field b ''direction'' \<noteq> JStr ''down'')"
    using dir by simp
  have d2: "(field b ''direction'' = JStr ''up'') = up" using dir by simp
  have casts: "try_bind (id_int4 (Some (of_int w))) (\<lambda>w. try_bind (id_int4 (Some (of_int e))) (\<lambda>e. Inr (w, e)))
       = Inr (Some w, Some e)"
    using iw ie by (simp add: try_bind_def)
  have f: "filter (\<lambda>r. sql_eq (Some (wte_template_id r)) (Some w) \<and> sql_eq (Some (wte_exercise_id r)) (Some e)) ?rows
       = cur # others" using cur by (simp only: filter_current)
  have m: "move_exercise env id_param exercise_param b s =
     (case neighbor (data s) up (Some w) (wte_sort_order cur) of
        [] \<Rightarrow>
          (case getWorkoutTemplate (data s) (Some (of_int w)) of
             Inr d \<Rightarrow> (Response 200 (TemplateData d), s)
           | Inl err \<Rightarrow> (Response 500 Failure, s))
      | nb # _ \<Rightarrow>
          (case
             and_then
               (swap_orders env (wte_id cur) (wte_sort_order cur) (wte_id nb) (wte_sort_order nb)) (\<lambda>_.
               reads (\<lambda>db. getWorkoutTemplate db (Some (of_int w))))
             s
           of
             (Inr d, s') \<Rightarrow> (Response 200 (TemplateData d), s')
           | (Inl err, s') \<Rightarrow> (Response 500 Failure, s')))"
    unfolding move_exercise_def Let_def w e casts
    using dir by (simp add: d2 f)
  have cin: "cur \<in> set ?rows"
  proof -
    have "cur \<in> set (filter (\<lambda>r. wte_template_id r = w \<and> wte_exercise_id r = e) ?rows)"
      unfolding cur by simp
    then show ?thesis by simp
  qed
  show ?thesis
  proof (intro conjI impI)
    assume "\<forall>r \<in> set ?rows. wte_template_id r = w \<longrightarrow> \<not> beyond up (wte_sort_order cur) r"
    from neighbor_Nil[OF this] getWorkoutTemplate_Inr[OF iw, of "data s"]
    show "\<exists>d. move_exercise env id_param exercise_param b s = (Response 200 (TemplateData d), s)"
      unfolding m by auto
  next
    assume "\<exists>r \<in> set ?rows. wte_template_id r = w \<and> beyond up (wte_sort_order cur) r"
    from neighbor_nearest[OF this] obtain nb where
      nb: "neighbor (data s) up (Some w) (wte_sort_order cur) = [nb]"
        "nb \<in> set ?rows" "wte_template_id nb = w" "beyond up (wte_sort_order cur) nb"
        "\<forall>r \<in> set ?rows. wte_template_id r = w \<and> beyond up (wte_sort_order cur) r \<longrightarrow>
                  (if up then wte_sort_order r \<le> wte_sort_order nb
                   else wte_sort_order nb \<le> wte_sort_order r)" by blast
    have ne: "cur \<noteq> nb" using nb(4) by (auto simp: beyond_def split: if_splits)
    have "\<exists>d s'. move_exercise env id_param exercise_param b s =
                           (Response 200 (TemplateData d), s') \<and>
                         data s' = (data s)\<lparr>workout_template_exercises :=
                           map (swapped cur nb) ?rows\<rparr> \<and>
                         saved s' = None"
      if acc: "\<not> rejects env (UpdateSortOrder (wte_sort_order nb) (wte_id cur)) (data s) \<and>
               \<not> rejects env (UpdateSortOrder (wte_sort_order cur) (wte_id nb))
                   (exec (UpdateSortOrder (wte_sort_order nb) (wte_id cur)) (data s))"
    proof -
      from swap_orders_accept[OF idle, of env "wte_sort_order nb" "wte_id cur" "wte_sort_order cur" "wte_id nb"] acc
      obtain s1 where s1: "swap_orders env (wte_id cur) (wte_sort_order cur) (wte_id nb) (wte_sort_order nb) s = (Inr (), s1)"
        "data s1 = exec (UpdateSortOrder (wte_sort_order cur) (wte_id nb))
                     (exec (UpdateSortOrder (wte_sort_order nb) (wte_id cur)) (data s))"
        "saved s1 = None" by blast
      from getWorkoutTemplate_Inr[OF iw, of "data s1"] obtain d where
        d: "getWorkoutTemplate (data s1) (Some (of_int w)) = Inr d" by blast
      have "move_exercise env id_param exercise_param b s = (Response 200 (TemplateData d), s1)"
        unfolding m nb(1) by (simp add: and_then_def s1(1) reads_def d)
      then show ?thesis
        using s1(2,3) two_updates_swap[OF keys cin nb(2) ne] by auto
    qed
    then show "\<exists>nb. nb \<in> set ?rows \<and> wte_template_id nb = w \<and>
              beyond up (wte_sort_order cur) nb \<and>
              (\<forall>r \<in> set ?rows.
                  wte_template_id r = w \<and> beyond up (wte_sort_order cur) r \<longrightarrow>
                  (if up then wte_sort_order r \<le> wte_sort_order nb
                   else wte_sort_order nb \<le> wte_sort_order r)) \<and>
              (\<not> rejects env (UpdateSortOrder (wte_sort_order nb) (wte_id cur)) (data s) \<and>
               \<not> rejects env (UpdateSortOrder (wte_sort_order cur) (wte_id nb))
                   (exec (UpdateSortOrder (wte_sort_order nb) (wte_id cur)) (data s)) \<longrightarrow>
                 (\<exists>d s'. move_exercise env id_param exercise_param b s =
                           (Response 200 (TemplateData d), s') \<and>
                         data s' = (data s)\<lparr>workout_template_exercises :=
                           map (swapped cur nb) ?rows\<rparr> \<and>
                         saved s' = None))"
      using nb(2-5) by (intro exI[of _ nb]) blast
  qed
qed

theorem move_swaps_neighbour_witness:
  "(\<exists>d. move_exercise env0 ''1'' ''1'' [(''direction'', JStr ''up'')] srv0 =
         (Response 200 (TemplateData d), srv0)) \<and>
   (\<exists>d s'. move_exercise env0 ''1'' ''2'' [(''direction'', JStr ''up'')] srv0 =
         (Response 200 (TemplateData d), s') \<and>
       map wte_id (workout_template_exercises (data s')) = [10, 11, 12] \<and>
       map wte_sort_order (workout_template_exercises (data s')) = [2, 1, 3])"
proof
  let ?r10 = "\<lparr>wte_id = 10, wte_template_id = 1, wte_exercise_id = 1, wte_sort_order = 1,
              wte_target_sets = SqlNull, wte_target_reps = SqlNull, wte_notes = SqlNull\<rparr>"
  let ?r11 = "\<lparr>wte_id = 11, wte_template_id = 1, wte_exercise_id = 2, wte_sort_order = 2,
              wte_target_sets = SqlNull, wte_target_reps = SqlText ''8'', wte_notes = SqlNull\<rparr>"
  let ?r12 = "\<lparr>wte_id = 12, wte_template_id = 1, wte_exercise_id = 3, wte_sort_order = 3,
              wte_target_sets = SqlNull, wte_target_reps = SqlNull, wte_notes = SqlNull\<rparr>"
  let ?b = "[(''direction'', JStr ''up'')]"
  have rows: "workout_template_exercises (data srv0) = [?r10, ?r11, ?r12]"
    by (simp add: srv0_def db0_def)
  have a1: "asInt (coerce env0) (JStr ''1'') = Some (of_int 1)" by code_simp
  have a2: "asInt (coerce env0) (JStr ''2'') = Some (of_int 2)" by code_simp
  have i1: "int4 1" and i2: "int4 2" by (simp_all add: int4_def)
  have dir: "field ?b ''direction'' = JStr (if True then ''up'' else ''down'')"
    by (simp add: field_def)
  have idle: "saved srv0 = None" by (simp add: srv0_def)
  have keys: "distinct (map wte_id (workout_template_exercises (data srv0)))"
    by (simp add: rows)
  have c1: "filter (\<lambda>r. wte_template_id r = 1 \<and> wte_exercise_id r = 1)
              (workout_template_exercises (data srv0)) = ?r10 # []" by (simp add: rows)
  have c2: "filter (\<lambda>r. wte_template_id r = 1 \<and> wte_exercise_id r = 2)
              (workout_template_exercises (data srv0)) = ?r11 # []" by (simp add: rows)
  have first: "\<forall>r \<in> set (workout_template_exercises (data srv0)).
          wte_template_id r = 1 \<longrightarrow> \<not> beyond True (wte_sort_order ?r10) r"
    by (simp add: rows beyond_def)
  from move_swaps_neighbour[OF a1 i1 a1 i1 dir c1 idle keys] first
  show "\<exists>d. move_exercise env0 ''1'' ''1'' ?b srv0 = (Response 200 (TemplateData d), srv0)"
    by blast
  have ex: "\<exists>r \<in> set (workout_template_exercises (data srv0)).
          wte_template_id r = 1 \<and> beyond True (wte_sort_order ?r11) r"
    by (simp add: rows beyond_def)
  from move_swaps_neighbour[OF a1 i1 a2 i2 dir c2 idle keys] ex
  obtain nb where nb: "nb \<in> set (workout_template_exercises (data srv0))"
      "beyond True (wte_sort_order ?r11) nb"
      "\<not> rejects env0 (UpdateSortOrder (wte_sort_order nb) (wte_id ?r11)) (data srv0) \<and>
       \<not> rejects env0 (UpdateSortOrder (wte_sort_order ?r11) (wte_id nb))
           (exec (UpdateSortOrder (wte_sort_order nb) (wte_id ?r11)) (data srv0)) \<longrightarrow>
         (\<exists>d s'. move_exercise env0 ''1'' ''2'' ?b srv0 = (Response 200 (TemplateData d), s') \<and>
                 data s' = (data srv0)\<lparr>workout_template_exercises :=
                   map (swapped ?r11 nb) (workout_template_exercises (data srv0))\<rparr> \<and>
                 saved s' = None)"
    by blast
  have nb10: "nb = ?r10" using nb(1,2) by (auto simp: rows beyond_def)
  have acc: "\<not> rejects env0 st db" for st db by (simp add: env0_def)
  from nb(3) acc obtain d s' where
    r: "move_exercise env0 ''1'' ''2'' ?b srv0 = (Response 200 (TemplateData d), s')"
       "data s' = (data srv0)\<lparr>workout_template_exercises :=
                   map (swapped ?r11 nb) (workout_template_exercises (data srv0))\<rparr>"
    by blast
  have "map wte_id (workout_template_exercises (data s')) = [10, 11, 12] \<and>
       map wte_sort_order (workout_template_exercises (data s')) = [2, 1, 3]"
    unfolding r(2) nb10 by (simp add: rows swapped_def)
  with r(1) show "\<exists>d s'. move_exercise env0 ''1'' ''2'' ?b srv0 =
         (Response 200 (TemplateData d), s') \<and>
       map wte_id (workout_template_exercises (data s')) = [10, 11, 12] \<and>
       map wte_sort_order (workout_template_exercises (data s')) = [2, 1, 3]"
    by (intro exI[of _ d] exI[of _ s'] conjI) simp_all
qed

section \<open>Sort orders after a delete\<close>


lemma renumbered_id [simp]: "wte_id (renumbered i xs r) = wte_id r"
  by (induction xs arbitrary: i) auto

lemma renumbered_template [simp]: "wte_template_id (renumbered i xs r) = wte_template_id r"
  by (induction xs arbitrary: i) auto



lemma filter_unique:
  "distinct (map g xs) \<Longrightarrow> k \<in> set xs \<Longrightarrow> filter (\<lambda>x. g k = g x) xs = [k]"
proof (induction xs)
  case Nil
  then show ?case by simp
next
  case (Cons a xs)
  show ?case
  proof (cases "k = a")
    case True
    have "filter (\<lambda>x. g a = g x) xs = []"
      using Cons.prems(1) by (auto simp: filter_empty_conv)
    then show ?thesis using True by simp
  next
    case False
    then have "k \<in> set xs" using Cons.prems(2) by simp
    moreover have "g k \<noteq> g a" using Cons.prems(1) \<open>k \<in> set xs\<close> by (auto simp: image_iff)
    ultimately show ?thesis using Cons by simp
  qed
qed




lemma opt_int4_Some: "opt_int4 (Some v) = Inr x \<Longrightarrow> x = Some v"
  by (auto split: if_splits)

lemma opt_int4_None: "opt_int4 None = Inr x \<Longrightarrow> x = None"
  by simp









section \<open>Transactions\<close>

lemma db_write_calls:
  "db_write ch env st s = (r, s') \<Longrightarrow> calls s' = calls s @ [Query ch (Write st)] \<and> saved s' = saved s"
  by (auto simp: db_write_def logged_def Let_def split: if_splits)

lemma db_write_Inl:
  "db_write ch env st s = (Inl e, s') \<Longrightarrow> data s' = data s"
  by (auto simp: db_write_def logged_def Let_def split: if_splits)

lemma swap_orders_calls:
  assumes "swap_orders env curId curOrder nbId nbOrder s = (r, s')"
  shows "\<exists>cs. calls s' = calls s @ cs \<and> (\<forall>c \<in> set cs. via_pool c)"
proof -
  let ?s0 = "begin_tx Pool s"
  have c0: "calls ?s0 = calls s @ [Query Pool Begin]"
    by (simp add: begin_tx_def logged_def split: option.splits)
  obtain r1 s1 where w1: "db_write Pool env (UpdateSortOrder nbOrder curId) ?s0 = (r1, s1)"
    by (cases "db_write Pool env (UpdateSortOrder nbOrder curId) ?s0") auto
  note c1 = db_write_calls[OF w1, THEN conjunct1]
  show ?thesis
  proof (cases r1)
    case (Inl e)
    then have "s' = rollback_tx Pool s1"
      using assms w1 by (simp add: swap_orders_def and_then_def)
    then have "calls s' = calls s @ [Query Pool Begin, Query Pool (Write (UpdateSortOrder nbOrder curId)),
                 Query Pool Rollback]"
      using c0 c1 by (simp add: rollback_tx_def logged_def split: option.splits)
    then show ?thesis by (simp add: via_pool_def)
  next
    case (Inr u)
    obtain r2 s2 where w2: "db_write Pool env (UpdateSortOrder curOrder nbId) s1 = (r2, s2)"
      by (cases "db_write Pool env (UpdateSortOrder curOrder nbId) s1") auto
    note c2 = db_write_calls[OF w2, THEN conjunct1]
    show ?thesis
    proof (cases r2)
      case (Inl e)
      then have "s' = rollback_tx Pool s2"
        using assms w1 w2 Inr by (simp add: swap_orders_def and_then_def)
      then have "calls s' = calls s @ [Query Pool Begin, Query Pool (Write (UpdateSortOrder nbOrder curId)),
                 Query Pool (Write (UpdateSortOrder curOrder nbId)), Query Pool Rollback]"
        using c0 c1 c2 by (simp add: rollback_tx_def logged_def split: option.splits)
      then show ?thesis by (simp add: via_pool_def)
    next
      case (Inr v)
      then have "s' = commit_tx Pool s2"
        using assms w1 w2 \<open>r1 = Inr u\<close> by (simp add: swap_orders_def and_then_def step_def)
      then have "calls s' = calls s @ [Query Pool Begin, Query Pool (Write (UpdateSortOrder nbOrder curId)),
                 Query Pool (Write (UpdateSortOrder curOrder nbId)), Query Pool Commit]"
        using c0 c1 c2 by (simp add: commit_tx_def logged_def)
      then show ?thesis by (simp add: via_pool_def)
    qed
  qed
qed

lemma move_exercise_never_connects:
  "\<exists>cs. calls (snd (move_exercise env id_param exercise_param b s)) = calls s @ cs \<and>
         (\<forall>c \<in> set cs. via_pool c)"
proof -
  have trivial: "\<exists>cs. calls s = calls s @ cs \<and> (\<forall>c \<in> set cs. via_pool c)" by simp
  have sw: "\<exists>cs. calls (snd (case and_then (swap_orders env a b' c d)
                     (\<lambda>_. reads q) s of
                   (Inr d, s') \<Rightarrow> (Response 200 (TemplateData d), s')
                 | (Inl err, s') \<Rightarrow> (Response 500 Failure, s'))) = calls s @ cs \<and>
               (\<forall>c \<in> set cs. via_pool c)" for a b' c d q
  proof -
    obtain r s1 where r: "swap_orders env a b' c d s = (r, s1)"
      by (cases "swap_orders env a b' c d s") auto
    from swap_orders_calls[OF r] show ?thesis
      by (cases r) (auto simp: and_then_def r reads_def split: sum.splits)
  qed
  show ?thesis
    unfolding move_exercise_def Let_def
    using trivial sw
    by (simp split: sum.splits list.splits prod.splits)
qed

text \<open>
  C2 fails for the move operation: it never checks out a connection. Its BEGIN, its two
  updates and its COMMIT each go through \<open>pool.query\<close>, which gives no guarantee that
  they reach the database on one connection.
\<close>

theorem move_transaction_on_pool:
  "calls (snd (move_exercise env0 ''1'' ''2'' [(''direction'', JStr ''up'')] srv0)) =
     [Query Pool Begin, Query Pool (Write (UpdateSortOrder 1 11)),
      Query Pool (Write (UpdateSortOrder 2 10)), Query Pool Commit]"
  by code_simp

lemma client_io_ret: "client_io (ret x)"
  by (auto simp: client_io_def ret_def intro: exI[of _ "[]"])

lemma client_io_lift: "client_io (lift x)"
  by (auto simp: client_io_def lift_def intro: exI[of _ "[]"])

lemma client_io_reads: "client_io (reads q)"
  by (auto simp: client_io_def reads_def intro: exI[of _ "[]"])

lemma client_io_write: "client_io (db_write Client env st)"
  unfolding client_io_def
proof (intro allI impI)
  fix s r s' assume "db_write Client env st s = (r, s')"
  from db_write_calls[OF this]
  show "saved s' = saved s \<and> (\<exists>qs. calls s' = calls s @ map (Query Client) qs)"
    by (auto intro: exI[of _ "[Write st]"])
qed

lemma client_io_and_then:
  assumes "client_io m" and "\<And>x. client_io (f x)"
  shows "client_io (and_then m f)"
  unfolding client_io_def
proof (intro allI impI)
  fix s r s' assume a: "and_then m f s = (r, s')"
  obtain r1 s1 where m: "m s = (r1, s1)" by (cases "m s") auto
  from assms(1) m obtain q1 where 1: "saved s1 = saved s" "calls s1 = calls s @ map (Query Client) q1"
    unfolding client_io_def by blast
  show "saved s' = saved s \<and> (\<exists>qs. calls s' = calls s @ map (Query Client) qs)"
  proof (cases r1)
    case (Inl e)
    then have "s' = s1" using a m by (simp add: and_then_def)
    then show ?thesis using 1 by blast
  next
    case (Inr x)
    then have "f x s1 = (r, s')" using a m by (simp add: and_then_def)
    with assms(2)[of x] obtain q2 where 2: "saved s' = saved s1" "calls s' = calls s1 @ map (Query Client) q2"
      unfolding client_io_def by blast
    show ?thesis using 1 2 by (auto intro: exI[of _ "q1 @ q2"])
  qed
qed

lemma client_io_insert_sets: "client_io (insert_sets env sj ej L)"
  by (induction L) (auto intro!: client_io_ret client_io_and_then client_io_lift client_io_write)

lemma client_io_insert_items: "client_io (insert_items env em p items)"
  by (induction items) (auto intro!: client_io_ret client_io_and_then client_io_reads client_io_write)

lemma client_io_import_group: "client_io (import_group env mode tm em g)"
  unfolding import_group_def Let_def
  by (auto intro!: client_io_ret client_io_and_then client_io_reads client_io_write
        client_io_lift client_io_insert_items split: list.splits)

lemma client_io_import_groups: "client_io (import_groups env mode tm em gs counts)"
  by (induction gs arbitrary: counts)
     (auto intro!: client_io_ret client_io_and_then client_io_import_group split: prod.splits)

lemma and_then_assoc: "and_then (and_then m f) g = and_then m (\<lambda>x. and_then (f x) g)"
  by (auto simp: and_then_def fun_eq_iff split: prod.splits sum.splits)

text \<open>
  The pattern of the four handlers: \<open>connect\<close>, BEGIN, the statements, COMMIT, and in
  \<open>catch\<close> ROLLBACK, with \<open>release\<close> in \<open>finally\<close>. A failure leaves the data as they were,
  and every call is made on the one client.
\<close>

lemma client_transaction:
  assumes m: "client_io m" and idle: "saved s = None"
    and run: "and_then (step (begin_tx Client)) (\<lambda>_. and_then m (\<lambda>_. step (commit_tx Client)))
                (connect s) = (r, s1)"
  shows "(case r of
            Inr _ \<Rightarrow> on_one_client (drop (length (calls s)) (calls (release s1))) \<and>
                     saved (release s1) = None
          | Inl e \<Rightarrow> data (release (rollback_tx Client s1)) = data s \<and>
                     saved (release (rollback_tx Client s1)) = None \<and>
                     on_one_client (drop (length (calls s)) (calls (release (rollback_tx Client s1)))))"
proof -
  let ?s0 = "begin_tx Client (connect s)"
  have s0: "saved ?s0 = Some (data s)" "calls ?s0 = calls s @ [Connect, Query Client Begin]"
    using idle by (simp_all add: begin_tx_def connect_def logged_def)
  obtain r2 s2 where m2: "m ?s0 = (r2, s2)" by (cases "m ?s0") auto
  from m m2 obtain qs where 2: "saved s2 = Some (data s)"
      "calls s2 = calls s @ [Connect, Query Client Begin] @ map (Query Client) qs"
    unfolding client_io_def using s0 by fastforce
  show ?thesis
  proof (cases r2)
    case (Inl e)
    then have r: "r = Inl e" "s1 = s2" using run m2 by (simp_all add: and_then_def step_def)
    have "calls (release (rollback_tx Client s1)) =
            calls s @ Connect # map (Query Client) ([Begin] @ qs @ [Rollback]) @ [Release]"
      using 2 r by (simp add: release_def rollback_tx_def logged_def)
    then have "on_one_client (drop (length (calls s)) (calls (release (rollback_tx Client s1))))"
      unfolding on_one_client_def by (intro exI[of _ "[Begin] @ qs @ [Rollback]"]) simp
    moreover have "data (release (rollback_tx Client s1)) = data s"
      using 2 r by (simp add: rollback_tx_def logged_def)
    moreover have "saved (release (rollback_tx Client s1)) = None"
      using 2 r by (simp add: rollback_tx_def logged_def release_def)
    ultimately show ?thesis using r by simp
  next
    case (Inr x)
    then have r: "r = Inr ()" "s1 = commit_tx Client s2"
      using run m2 by (simp_all add: and_then_def step_def)
    have "calls (release s1) =
            calls s @ Connect # map (Query Client) ([Begin] @ qs @ [Commit]) @ [Release]"
      using 2 r by (simp add: release_def commit_tx_def logged_def)
    then have "on_one_client (drop (length (calls s)) (calls (release s1)))"
      unfolding on_one_client_def by (intro exI[of _ "[Begin] @ qs @ [Commit]"]) simp
    moreover have "saved (release s1) = None"
      using r by (simp add: release_def commit_tx_def logged_def)
    ultimately show ?thesis using r by simp
  qed
qed
end
